theory Spec2Isabelle
  imports Main "HOL-Library.Log_Nat"
begin

section \<open>Data model (the Order and User schemas)\<close>

text \<open>
  The Mongoose schemas \<^verbatim>\<open>orderSchema\<close> and \<^verbatim>\<open>userSchema\<close> (in the sources at
  src/client/src/pages/Home.js, lines 618 to 980). An ObjectId is compared through \<^verbatim>\<open>toString()\<close> with the
  caller's id, so ids are strings. A \<^verbatim>\<open>Date\<close> is its millisecond count. A JavaScript
  \<^verbatim>\<open>Number\<close> is the rational value of a finite double. A path that is unset
  (\<^verbatim>\<open>undefined\<close> or \<^verbatim>\<open>null\<close>) is \<open>None\<close>. The record of an order holds the
  paths that the handlers below read or write. It leaves out \<^verbatim>\<open>orderNumber\<close>,
  \<^verbatim>\<open>createdAt\<close>, the notes of customer and driver, the delivery schedule, the discount,
  and \<^verbatim>\<open>updatedAt\<close>, which the schema's \<^verbatim>\<open>pre('save')\<close> hook sets to the time of
  every save: whatever is said below of a stored order is said of the paths of the
  record.
\<close>

type_synonym objectId = string
type_synonym date = nat
type_synonym number = rat

datatype userType = Customer | Driver | Admin

datatype status =
  Pending | Confirmed | DriverAssigned | DriverEnRoute | Arrived | Delivering
  | Completed | Cancelled

datatype paymentStatus = PaymentPending | Paid | Failed | Refunded

datatype paymentMethod = Card | Cash | Wallet

datatype fuelType = Petrol | Diesel

record coordinates =
  latitude :: number
  longitude :: number

record deliveryAddress =
  street :: string
  city :: string
  state :: string
  zipCode :: string
  coordinates :: "coordinates option"

record paymentDetails =
  transactionId :: "string option"
  stripePaymentIntentId :: "string option"
  paidAt :: "date option"

text \<open>The milestones of \<^verbatim>\<open>tracking\<close>; each handler assigns a milestone as a whole object.\<close>

record orderPlacedT =
  placedTimestamp :: date

record driverAssignedT =
  assignedTimestamp :: date
  driverId :: objectId

record driverEnRouteT =
  enRouteTimestamp :: date
  estimatedArrival :: date

record arrivedT =
  arrivedTimestamp :: date
  location :: "coordinates option"

record deliveringT =
  deliveringTimestamp :: date

record completedT =
  completedTimestamp :: date
  signature :: "string option"
  photo :: "string option"

record cancelledT =
  cancelledTimestamp :: date
  reason :: "string option"
  cancelledBy :: userType

record tracking =
  orderPlaced :: orderPlacedT
  driverAssigned :: "driverAssignedT option"
  driverEnRoute :: "driverEnRouteT option"
  arrived :: "arrivedT option"
  delivering :: "deliveringT option"
  completed :: "completedT option"
  cancelled :: "cancelledT option"

record ratingSlot =
  score :: "number option"
  comment :: "string option"
  ratedAt :: "date option"

record rating =
  customerRating :: ratingSlot
  driverRating :: ratingSlot

record order =
  orderId :: objectId
  customer :: objectId
  driver :: "objectId option"
  fuelType :: fuelType
  quantity :: number
  pricePerLiter :: number
  totalAmount :: number
  deliveryAddress :: deliveryAddress
  status :: status
  paymentStatus :: paymentStatus
  paymentMethod :: paymentMethod
  paymentDetails :: paymentDetails
  actualDeliveryTime :: "date option"
  deliveryFee :: number
  taxes :: number
  tracking :: tracking
  rating :: rating
  adminNotes :: "string option"

text \<open>The driver fragment of a user document: \<^verbatim>\<open>driverDetails.rating\<close> and
  \<^verbatim>\<open>driverDetails.totalRatings\<close>.\<close>

record driverDetails =
  ratingAvg :: number
  totalRatings :: number

section \<open>Requests, responses, events\<close>

text \<open>
  \<^verbatim>\<open>auth\<close> (server/middleware/auth.js) puts the token's user on the request:
  \<^verbatim>\<open>req.userId\<close> and \<^verbatim>\<open>req.user.userType\<close>. A handler is applied to the document
  its query found (\<open>None\<close>: no such document) at the time \<open>now\<close> that
  \<^verbatim>\<open>new Date()\<close> reads, and yields the response, the document as it is stored when
  the handler ends, and the socket events emitted. A response is its HTTP status and its
  message. The users an order refers to exist, so that \<^verbatim>\<open>populate\<close> finds them, and
  \<^verbatim>\<open>save\<close> succeeds on a document that the query found in the store, whose
  required paths are set; the check that an id in a request is well formed is part of
  the query.
\<close>

record caller =
  userId :: objectId
  callerType :: userType

datatype response = Response (code: nat) (message: string)

datatype room = CustomerRoom objectId | DriverRoom objectId | Everyone

datatype event =
  NewOrder | OrderUpdate status | PaymentConfirmed | PaymentSuccess | PaymentFailed
  | RefundProcessed

type_synonym outcome = "response \<times> order option \<times> (room \<times> event) list"

text \<open>
  A value of a request body that a validator admits as a number and as a string alike:
  \<^verbatim>\<open>express-validator\<close> tests the string form of the value and converts nothing, so
  the handler reads the value as the body has it.
\<close>

datatype bodyValue = BodyNumber number | BodyString string

definition requireDriver :: "caller \<Rightarrow> response option" where
  "requireDriver c =
     (if callerType c \<noteq> Driver
      then Some (Response 403 ''Access denied. Driver privileges required.'')
      else None)"

definition requireAdmin :: "caller \<Rightarrow> response option" where
  "requireAdmin c =
     (if callerType c \<noteq> Admin
      then Some (Response 403 ''Access denied. Admin privileges required.'')
      else None)"

definition requireCustomer :: "caller \<Rightarrow> response option" where
  "requireCustomer c =
     (if callerType c \<noteq> Customer
      then Some (Response 403 ''Access denied. Customer privileges required.'')
      else None)"

section \<open>Accept order (server/routes/orders.js, PUT /:orderId/accept)\<close>

definition accept :: "caller \<Rightarrow> date \<Rightarrow> order option \<Rightarrow> outcome" where
  "accept c now found =
     (case requireDriver c of
        Some r \<Rightarrow> (r, found, [])
      | None \<Rightarrow>
         (case found of
            None \<Rightarrow> (Response 404 ''Order not found'', None, [])
          | Some ord \<Rightarrow>
              if status ord \<noteq> Confirmed \<or> driver ord \<noteq> None
              then (Response 400 ''Order not available for acceptance'', Some ord, [])
              else
                let ord' = ord\<lparr>
                      driver := Some (userId c),
                      status := DriverAssigned,
                      tracking := (tracking ord)\<lparr>driverAssigned :=
                        Some \<lparr>assignedTimestamp = now, driverId = userId c\<rparr>\<rparr>\<rparr>
                in (Response 200 ''Order accepted successfully'', Some ord',
                    [(CustomerRoom (customer ord'), OrderUpdate DriverAssigned)])))"

section \<open>Update order status (server/routes/orders.js, PUT /:orderId/status)\<close>

text \<open>
  The body of a status request. \<^verbatim>\<open>body('status').isIn([...])\<close> admits five of the
  schema's eight values; every other value is answered 400.
\<close>

record statusBody =
  newStatus :: status
  bodyLocation :: "coordinates option"
  bodySignature :: "string option"
  bodyPhoto :: "string option"
  cancelReason :: "string option"

definition statusTargets :: "status list" where
  "statusTargets = [DriverEnRoute, Arrived, Delivering, Completed, Cancelled]"

text \<open>The \<^verbatim>\<open>switch (status)\<close> of the handler, after \<^verbatim>\<open>order.status = status\<close>.\<close>

definition applyStatus :: "caller \<Rightarrow> date \<Rightarrow> statusBody \<Rightarrow> order \<Rightarrow> order" where
  "applyStatus c now b ord =
     (let ord1 = ord\<lparr>status := newStatus b\<rparr>; t = tracking ord1 in
      case newStatus b of
        DriverEnRoute \<Rightarrow> ord1\<lparr>tracking := t\<lparr>driverEnRoute :=
            Some \<lparr>enRouteTimestamp = now, estimatedArrival = now + 30 * 60 * 1000\<rparr>\<rparr>\<rparr>
      | Arrived \<Rightarrow> ord1\<lparr>tracking := t\<lparr>arrived :=
            Some \<lparr>arrivedTimestamp = now, location = bodyLocation b\<rparr>\<rparr>\<rparr>
      | Delivering \<Rightarrow> ord1\<lparr>tracking := t\<lparr>delivering :=
            Some \<lparr>deliveringTimestamp = now\<rparr>\<rparr>\<rparr>
      | Completed \<Rightarrow> ord1\<lparr>
            tracking := t\<lparr>completed :=
              Some \<lparr>completedTimestamp = now, signature = bodySignature b,
                    photo = bodyPhoto b\<rparr>\<rparr>,
            actualDeliveryTime := Some now,
            paymentStatus :=
              (if paymentMethod ord1 = Cash then Paid else paymentStatus ord1)\<rparr>
      | Cancelled \<Rightarrow> ord1\<lparr>tracking := t\<lparr>cancelled :=
            Some \<lparr>cancelledTimestamp = now, reason = cancelReason b,
                  cancelledBy = callerType c\<rparr>\<rparr>\<rparr>
      | _ \<Rightarrow> ord1)"

text \<open>
  \<^verbatim>\<open>order.driver.toString()\<close> is evaluated only when the caller is a driver
  (\<^verbatim>\<open>&&\<close> short-circuits); on an order without a driver it throws a TypeError,
  which the handler's \<^verbatim>\<open>catch\<close> answers with 500 before anything is saved.
\<close>

definition updateStatus :: "caller \<Rightarrow> date \<Rightarrow> statusBody \<Rightarrow> order option \<Rightarrow> outcome" where
  "updateStatus c now b found =
     (if newStatus b \<notin> set statusTargets then (Response 400 ''Invalid status'', found, [])
      else case found of
        None \<Rightarrow> (Response 404 ''Order not found'', None, [])
      | Some ord \<Rightarrow>
          if callerType c = Driver \<and> driver ord = None
          then (Response 500 ''Server error updating order status'', Some ord, [])
          else if callerType c = Driver \<and> driver ord \<noteq> Some (userId c)
          then (Response 403 ''Not authorized to update this order'', Some ord, [])
          else if callerType c = Customer \<and> customer ord \<noteq> userId c
                  \<and> newStatus b \<noteq> Cancelled
          then (Response 403 ''Customers can only cancel orders'', Some ord, [])
          else
            let ord' = applyStatus c now b ord in
            (Response 200 ''Order status updated successfully'', Some ord',
             (CustomerRoom (customer ord'), OrderUpdate (newStatus b)) #
             (case driver ord' of
                None \<Rightarrow> []
              | Some d \<Rightarrow> [(DriverRoom d, OrderUpdate (newStatus b))])))"


section \<open>JavaScript numbers\<close>

text \<open>
  A \<^verbatim>\<open>Number\<close> is an IEEE 754 binary64 value and every arithmetic operation returns
  the exact result rounded to the nearest double, ties to even. \<open>round_double\<close> is that
  rounding on the rationals: 53 significant bits, the exponent not below that of the
  smallest normal number. Overflow to \<^verbatim>\<open>Infinity\<close> and division by zero are
  not modelled: the result is the program's while it stays below \<open>2 ^ 1024\<close> and no
  divisor is zero.
\<close>

definition pow2 :: "int \<Rightarrow> rat" where
  "pow2 e = (if 0 \<le> e then 2 ^ nat e else 1 / 2 ^ nat (- e))"

text \<open>\<open>ilog2 x\<close> is the exponent \<open>e\<close> with \<open>2 ^ e \<le> \<bar>x\<bar> < 2 ^ (e + 1)\<close>, for \<open>x \<noteq> 0\<close>.\<close>

definition ilog2 :: "rat \<Rightarrow> int" where
  "ilog2 x =
     (let (p, q) = quotient_of \<bar>x\<bar>; e = bitlen p - bitlen q
      in if pow2 e \<le> \<bar>x\<bar> then e else e - 1)"

definition roundHalfEven :: "rat \<Rightarrow> int" where
  "roundHalfEven y =
     (let f = \<lfloor>y\<rfloor>; d = y - of_int f
      in if d < 1 / 2 then f else if 1 / 2 < d then f + 1
         else if even f then f else f + 1)"

definition round_double :: "rat \<Rightarrow> number" where
  "round_double x =
     (if x = 0 then 0
      else let e = max (ilog2 x) (- 1022); u = pow2 (e - 52)
           in of_int (roundHalfEven (x / u)) * u)"

definition fmul :: "number \<Rightarrow> number \<Rightarrow> number" where
  "fmul a b = round_double (a * b)"

definition fadd :: "number \<Rightarrow> number \<Rightarrow> number" where
  "fadd a b = round_double (a + b)"

definition fdiv :: "number \<Rightarrow> number \<Rightarrow> number" where
  "fdiv a b = round_double (a / b)"

text \<open>\<^verbatim>\<open>x || 0\<close> on a number: \<open>0\<close> is the one falsy value a finite double has.\<close>

definition orZero :: "number \<Rightarrow> number" where
  "orZero x = (if x = 0 then 0 else x)"

section \<open>Create order (server/routes/orders.js, POST /)\<close>

text \<open>
  The body after \<^verbatim>\<open>JSON.parse\<close>, its quantity as the body has it. The lines of the
  address are strings (empty when the body has none) and its coordinates are numbers
  (\<open>None\<close> when one of them is missing). The notes and the delivery schedule play no
  part in the price and are left out.
\<close>

record orderBody =
  bodyFuelType :: fuelType
  bodyQuantity :: bodyValue
  bodyAddress :: deliveryAddress
  bodyPaymentMethod :: paymentMethod

definition emptySlot :: ratingSlot where
  "emptySlot = \<lparr>score = None, comment = None, ratedAt = None\<rparr>"

text \<open>
  \<^verbatim>\<open>isNumeric()\<close> tests the string form of the value against an optional sign, digits
  and an optional point. \<^verbatim>\<open>String(x)\<close> of a double is of that form when it needs no
  exponent: for 0, and for an absolute value from the double nearest to \<open>10 ^ -6\<close> up
  to \<open>10 ^ 21\<close>, which is excluded.
\<close>

definition plainDecimal :: "number \<Rightarrow> bool" where
  "plainDecimal x = (x = 0 \<or> (round_double (1 / 10 ^ 6) \<le> \<bar>x\<bar> \<and> \<bar>x\<bar> < 10 ^ 21))"

text \<open>
  The validators of the route, for a quantity \<open>q\<close> that is a number:
  \<^verbatim>\<open>isNumeric().isFloat({ min: 1 })\<close> on the quantity, \<^verbatim>\<open>notEmpty()\<close> on the four lines
  of the address, \<^verbatim>\<open>isNumeric()\<close> on the two coordinates.
\<close>

definition validOrderBody :: "number \<Rightarrow> orderBody \<Rightarrow> bool" where
  "validOrderBody q b =
     (plainDecimal q \<and> 1 \<le> q
      \<and> street (bodyAddress b) \<noteq> [] \<and> city (bodyAddress b) \<noteq> []
      \<and> state (bodyAddress b) \<noteq> [] \<and> zipCode (bodyAddress b) \<noteq> []
      \<and> (case coordinates (bodyAddress b) of
            None \<Rightarrow> False
          | Some co \<Rightarrow> plainDecimal (latitude co) \<and> plainDecimal (longitude co)))"

text \<open>
  Lines 36 to 60 of the handler, for a quantity \<open>q\<close> that is a number: the price, and
  the document that \<^verbatim>\<open>new Order({...})\<close> builds from it, with the defaults of the
  schema. The literals \<^verbatim>\<open>95.50\<close> and \<^verbatim>\<open>89.75\<close> are doubles; \<^verbatim>\<open>0.18\<close> is not, and
  stands for the double nearest to it.
\<close>

definition newOrder :: "caller \<Rightarrow> date \<Rightarrow> objectId \<Rightarrow> number \<Rightarrow> orderBody \<Rightarrow> order" where
  "newOrder c now newId q b =
     (let pricePerLiter' = (if bodyFuelType b = Petrol then 95.50 else 89.75);
          baseAmount = fmul q pricePerLiter';
          deliveryFee' = 50;
          taxes' = fmul baseAmount (round_double 0.18);
          totalAmount' = fadd (fadd baseAmount deliveryFee') taxes'
      in \<lparr>orderId = newId, customer = userId c, driver = None,
           fuelType = bodyFuelType b, quantity = q,
           pricePerLiter = pricePerLiter', totalAmount = totalAmount',
           deliveryAddress = bodyAddress b, status = Pending,
           paymentStatus = PaymentPending, paymentMethod = bodyPaymentMethod b,
           paymentDetails = \<lparr>transactionId = None, stripePaymentIntentId = None,
             paidAt = None\<rparr>,
           actualDeliveryTime = None, deliveryFee = deliveryFee', taxes = taxes',
           tracking = \<lparr>orderPlaced = \<lparr>placedTimestamp = now\<rparr>,
             driverAssigned = None, driverEnRoute = None, arrived = None,
             delivering = None, completed = None, cancelled = None\<rparr>,
           rating = \<lparr>customerRating = emptySlot, driverRating = emptySlot\<rparr>,
           adminNotes = None\<rparr>)"

text \<open>
  \<^verbatim>\<open>await order.save()\<close> on that document, and the rest of the handler. The schema
  declares \<^verbatim>\<open>orderNumber\<close> as required and assigns it in its \<^verbatim>\<open>pre('save')\<close> hook;
  \<^verbatim>\<open>new Order({...})\<close> is given none, and Mongoose validates a document before it
  runs the hooks that the schema registers for \<^verbatim>\<open>save\<close>. So the validation fails on
  the missing order number, \<^verbatim>\<open>save\<close> throws, and the handler's \<^verbatim>\<open>catch\<close> answers
  500: the document is not stored and \<^verbatim>\<open>newOrder\<close> is not emitted.
\<close>

definition saveNew :: "order \<Rightarrow> outcome" where
  "saveNew ord = (Response 500 ''Server error creating order'', None, [])"

text \<open>
  The handler. A quantity that is a string is tested by the validators on its own
  characters and converted by \<^verbatim>\<open>quantity * pricePerLiter\<close>; that conversion is not
  modelled, and the handler's outcome for such a body is left open (\<open>None\<close>).
\<close>

definition createOrder :: "caller \<Rightarrow> date \<Rightarrow> objectId \<Rightarrow> orderBody \<Rightarrow> outcome option" where
  "createOrder c now newId b =
     (case requireCustomer c of
        Some r \<Rightarrow> Some (r, None, [])
      | None \<Rightarrow>
         (case bodyQuantity b of
            BodyString s \<Rightarrow> None
          | BodyNumber q \<Rightarrow>
              if \<not> validOrderBody q b then Some (Response 400 ''Validation failed'', None, [])
              else Some (saveNew (newOrder c now newId q b))))"

section \<open>Rate order (server/routes/orders.js, POST /:orderId/rate)\<close>

text \<open>
  \<^verbatim>\<open>isInt({ min: 1, max: 5 })\<close> tests the string form of the body's rating and
  converts nothing, so the handler's \<^verbatim>\<open>rating\<close> is a number or a string, as the body
  has it. \<open>validRating\<close>, \<open>updateDriverRating\<close> and \<open>rate\<close> are the route for a
  rating that is a number \<open>r\<close>: the validator admits the integers 1 to 5, the score
  stored is \<open>r\<close>, and \<^verbatim>\<open>(currentRating * totalRatings) + rating\<close> adds two doubles.
  \<open>users\<close> is \<^verbatim>\<open>User.findById\<close> on the driver fragments; the handler returns it
  with the driver's fragment saved.
\<close>

definition validRating :: "number \<Rightarrow> bool" where
  "validRating r = (r \<in> set [1, 2, 3, 4, 5])"

definition truthyScore :: "ratingSlot \<Rightarrow> bool" where
  "truthyScore s = (case score s of None \<Rightarrow> False | Some v \<Rightarrow> v \<noteq> 0)"

definition updateDriverRating ::
  "number \<Rightarrow> order \<Rightarrow> (objectId \<rightharpoonup> driverDetails) \<Rightarrow> (objectId \<rightharpoonup> driverDetails)" where
  "updateDriverRating r ord users =
     (case driver ord of
        None \<Rightarrow> users
      | Some d \<Rightarrow>
          (case users d of
             None \<Rightarrow> users
           | Some dd \<Rightarrow>
               let currentRating = orZero (ratingAvg dd);
                   totalRatings' = orZero (totalRatings dd);
                   newTotalRatings = fadd totalRatings' 1;
                   newRating = fdiv (fadd (fmul currentRating totalRatings') r) newTotalRatings
               in users(d \<mapsto> dd\<lparr>ratingAvg := newRating, totalRatings := newTotalRatings\<rparr>)))"

definition rate ::
  "caller \<Rightarrow> date \<Rightarrow> number \<Rightarrow> string option \<Rightarrow> (objectId \<rightharpoonup> driverDetails) \<Rightarrow> order option
     \<Rightarrow> outcome \<times> (objectId \<rightharpoonup> driverDetails)" where
  "rate c now r cmt users found =
     (if \<not> validRating r
      then ((Response 400 ''Rating must be between 1 and 5'', found, []), users)
      else case found of
        None \<Rightarrow> ((Response 404 ''Order not found'', None, []), users)
      | Some ord \<Rightarrow>
          if status ord \<noteq> Completed
          then ((Response 400 ''Can only rate completed orders'', Some ord, []), users)
          else if callerType c = Customer then
            (if customer ord \<noteq> userId c
             then ((Response 403 ''Not authorized to rate this order'', Some ord, []), users)
             else if truthyScore (customerRating (rating ord))
             then ((Response 400 ''Order already rated'', Some ord, []), users)
             else
               let ord' = ord\<lparr>rating := (rating ord)\<lparr>customerRating :=
                     \<lparr>score = Some r, comment = cmt, ratedAt = Some now\<rparr>\<rparr>\<rparr>
               in ((Response 200 ''Rating submitted successfully'', Some ord', []),
                   updateDriverRating r ord' users))
          else if callerType c = Driver then
            (if driver ord \<noteq> Some (userId c)
             then ((Response 403 ''Not authorized to rate this order'', Some ord, []), users)
             else if truthyScore (driverRating (rating ord))
             then ((Response 400 ''Order already rated'', Some ord, []), users)
             else
               let ord' = ord\<lparr>rating := (rating ord)\<lparr>driverRating :=
                     \<lparr>score = Some r, comment = cmt, ratedAt = Some now\<rparr>\<rparr>\<rparr>
               in ((Response 200 ''Rating submitted successfully'', Some ord', []), users))
          else ((Response 200 ''Rating submitted successfully'', Some ord, []), users))"



section \<open>Payments (the payments router, src/server/routes/orders.js from line 415)\<close>

text \<open>
  The gateway: \<^verbatim>\<open>stripe.paymentIntents.create\<close>, \<^verbatim>\<open>stripe.paymentIntents.retrieve\<close>
  and \<^verbatim>\<open>stripe.refunds.create\<close> are the handlers' parameters; each answers \<open>None\<close>
  where the call throws, which the handler's \<^verbatim>\<open>catch\<close> answers with 500.
\<close>

record paymentIntent =
  intentId :: string
  intentStatus :: string

definition truthyString :: "string option \<Rightarrow> bool" where
  "truthyString s = (case s of None \<Rightarrow> False | Some v \<Rightarrow> v \<noteq> [])"

text \<open>\<^verbatim>\<open>reason || dflt\<close>.\<close>

definition orDefault :: "string option \<Rightarrow> string \<Rightarrow> string" where
  "orDefault s dflt = (if truthyString s then the s else dflt)"

definition createPaymentIntent ::
  "caller \<Rightarrow> (number \<Rightarrow> paymentIntent option) \<Rightarrow> order option \<Rightarrow> outcome" where
  "createPaymentIntent c create found =
     (case requireCustomer c of
        Some r \<Rightarrow> (r, found, [])
      | None \<Rightarrow>
         (case found of
            None \<Rightarrow> (Response 404 ''Order not found'', None, [])
          | Some ord \<Rightarrow>
              if customer ord \<noteq> userId c
              then (Response 403 ''Not authorized to pay for this order'', Some ord, [])
              else if paymentStatus ord = Paid
              then (Response 400 ''Order is already paid'', Some ord, [])
              else if status ord = Cancelled
              then (Response 400 ''Cannot pay for cancelled order'', Some ord, [])
              else
                (case create (totalAmount ord) of
                   None \<Rightarrow>
                     (Response 500 ''Server error creating payment intent'', Some ord, [])
                 | Some intent \<Rightarrow>
                     (Response 200 ''clientSecret'',
                      Some (ord\<lparr>paymentDetails := (paymentDetails ord)\<lparr>
                        stripePaymentIntentId := Some (intentId intent)\<rparr>\<rparr>), []))))"

definition confirmPayment ::
  "caller \<Rightarrow> date \<Rightarrow> string \<Rightarrow> (string \<Rightarrow> paymentIntent option) \<Rightarrow> order option \<Rightarrow> outcome" where
  "confirmPayment c now paymentIntentId retrieve found =
     (case requireCustomer c of
        Some r \<Rightarrow> (r, found, [])
      | None \<Rightarrow>
          if paymentIntentId = []
          then (Response 400 ''Payment intent ID is required'', found, [])
          else
           (case found of
              None \<Rightarrow> (Response 404 ''Order not found'', None, [])
            | Some ord \<Rightarrow>
                if customer ord \<noteq> userId c
                then (Response 403 ''Not authorized'', Some ord, [])
                else
                 (case retrieve paymentIntentId of
                    None \<Rightarrow> (Response 500 ''Server error confirming payment'', Some ord, [])
                  | Some intent \<Rightarrow>
                      if intentStatus intent = ''succeeded''
                      then
                        let ord' = ord\<lparr>
                              paymentStatus := Paid,
                              paymentDetails := (paymentDetails ord)\<lparr>
                                transactionId := Some (intentId intent), paidAt := Some now\<rparr>,
                              status := Confirmed\<rparr>
                        in (Response 200 ''Payment confirmed successfully'', Some ord',
                            [(Everyone, PaymentConfirmed)])
                      else (Response 400 ''Payment not successful'', Some ord, []))))"

text \<open>
  The webhook. \<^verbatim>\<open>stripe.webhooks.constructEvent\<close> throws on a bad signature
  (\<open>None\<close>); \<open>found\<close> is what
  \<^verbatim>\<open>Order.findOne({'paymentDetails.stripePaymentIntentId': paymentIntent.id})\<close> returns.
\<close>

datatype stripeEvent =
  PaymentIntentSucceeded paymentIntent
  | PaymentIntentPaymentFailed paymentIntent
  | OtherEvent string

definition webhook :: "date \<Rightarrow> stripeEvent option \<Rightarrow> order option \<Rightarrow> outcome" where
  "webhook now ev found =
     (case ev of
        None \<Rightarrow> (Response 400 ''Webhook Error'', found, [])
      | Some (PaymentIntentSucceeded intent) \<Rightarrow>
          (case found of
             None \<Rightarrow> (Response 200 ''received'', None, [])
           | Some ord \<Rightarrow>
               let ord' = ord\<lparr>
                     paymentStatus := Paid,
                     paymentDetails := (paymentDetails ord)\<lparr>
                       transactionId := Some (intentId intent), paidAt := Some now\<rparr>,
                     status := Confirmed\<rparr>
               in (Response 200 ''received'', Some ord',
                   [(CustomerRoom (customer ord'), PaymentSuccess)]))
      | Some (PaymentIntentPaymentFailed intent) \<Rightarrow>
          (case found of
             None \<Rightarrow> (Response 200 ''received'', None, [])
           | Some ord \<Rightarrow>
               (Response 200 ''received'', Some (ord\<lparr>paymentStatus := Failed\<rparr>),
                [(CustomerRoom (customer ord), PaymentFailed)]))
      | Some (OtherEvent t) \<Rightarrow> (Response 200 ''received'', found, []))"

text \<open>
  The webhook in the application. server.js installs \<^verbatim>\<open>express.json()\<close> for every
  route before it mounts the payments router. When the route's own
  \<^verbatim>\<open>express.raw({ type: 'application/json' })\<close> runs, the body has been read already and
  \<^verbatim>\<open>req.body\<close> is an object, which \<^verbatim>\<open>express.raw\<close> leaves as it is. So
  \<^verbatim>\<open>constructEvent\<close> is given an object in place of the payload that was signed, and it
  throws for every request that reaches the handler: the handler answers 400 before it
  looks at any event.
\<close>

definition webhookRequest :: "date \<Rightarrow> order option \<Rightarrow> outcome" where
  "webhookRequest now found = webhook now None found"

text \<open>Refund. \<open>refundsCreate\<close> answers the refund's id for a payment intent.\<close>

definition refund ::
  "caller \<Rightarrow> date \<Rightarrow> string option \<Rightarrow> (string \<Rightarrow> string option) \<Rightarrow> order option \<Rightarrow> outcome" where
  "refund c now rsn refundsCreate found =
     (case found of
        None \<Rightarrow> (Response 404 ''Order not found'', None, [])
      | Some ord \<Rightarrow>
          if callerType c = Customer \<and> customer ord \<noteq> userId c
          then (Response 403 ''Not authorized'', Some ord, [])
          else if paymentStatus ord \<noteq> Paid
          then (Response 400 ''Order is not paid, cannot refund'', Some ord, [])
          else if status ord = Completed
          then (Response 400 ''Cannot refund completed orders'', Some ord, [])
          else if truthyString (stripePaymentIntentId (paymentDetails ord))
          then
            (case refundsCreate (the (stripePaymentIntentId (paymentDetails ord))) of
               None \<Rightarrow> (Response 500 ''Server error processing refund'', Some ord, [])
             | Some refundId \<Rightarrow>
                 let ord' = ord\<lparr>
                       paymentStatus := Refunded,
                       status := Cancelled,
                       tracking := (tracking ord)\<lparr>cancelled :=
                         Some \<lparr>cancelledTimestamp = now,
                               reason = Some (orDefault rsn ''Refund processed''),
                               cancelledBy = callerType c\<rparr>\<rparr>\<rparr>
                 in (Response 200 ''Refund processed successfully'', Some ord',
                     [(CustomerRoom (customer ord'), RefundProcessed)]))
          else (Response 400 ''No payment record found for refund'', Some ord, []))"

section \<open>Admin override (src/unnamed/part_003, PUT /orders/:orderId/status)\<close>

definition adminUpdateStatus ::
  "caller \<Rightarrow> date \<Rightarrow> status \<Rightarrow> string option \<Rightarrow> order option \<Rightarrow> outcome" where
  "adminUpdateStatus c now st rsn found =
     (case requireAdmin c of
        Some r \<Rightarrow> (r, found, [])
      | None \<Rightarrow>
         (case found of
            None \<Rightarrow> (Response 404 ''Order not found'', None, [])
          | Some ord \<Rightarrow>
              let ord1 = ord\<lparr>status := st\<rparr>;
                  ord2 = (if truthyString rsn then ord1\<lparr>adminNotes := rsn\<rparr> else ord1);
                  ord3 = (if st = Cancelled
                          then ord2\<lparr>tracking := (tracking ord2)\<lparr>cancelled :=
                            Some \<lparr>cancelledTimestamp = now,
                                  reason = Some (orDefault rsn ''Cancelled by admin''),
                                  cancelledBy = Admin\<rparr>\<rparr>\<rparr>
                          else ord2)
              in (Response 200 ''Order status updated successfully'', Some ord3,
                  (CustomerRoom (customer ord3), OrderUpdate st) #
                  (case driver ord3 of
                     None \<Rightarrow> []
                   | Some d \<Rightarrow> [(DriverRoom d, OrderUpdate st)]))))"

section \<open>Operations on one order\<close>

text \<open>
  A request that reaches an order, with what the gateway answers to it. \<open>step\<close> is the
  order as stored after the request. A rating is a number. The webhook is the handler
  on the event that \<^verbatim>\<open>constructEvent\<close> returns, and it reaches the order when its
  query matches: the order's payment intent is the event's. In the application as it
  is wired no event passes \<^verbatim>\<open>constructEvent\<close> (\<open>webhookRequest\<close>), so its webhook
  steps are those with no event; what is proved of all sequences of operations holds of
  them, and would hold with a webhook that receives the raw payload.
\<close>

datatype op =
  Accept caller date
  | UpdateStatus caller date statusBody
  | Rate caller date number "string option" "objectId \<rightharpoonup> driverDetails"
  | CreatePaymentIntent caller "number \<Rightarrow> paymentIntent option"
  | ConfirmPayment caller date string "string \<Rightarrow> paymentIntent option"
  | Webhook date "stripeEvent option"
  | Refund caller date "string option" "string \<Rightarrow> string option"
  | AdminUpdateStatus caller date status "string option"

definition saved :: "outcome \<Rightarrow> order \<Rightarrow> order" where
  "saved out ord = (case fst (snd out) of None \<Rightarrow> ord | Some ord' \<Rightarrow> ord')"

definition eventIntent :: "stripeEvent option \<Rightarrow> string option" where
  "eventIntent ev =
     (case ev of
        Some (PaymentIntentSucceeded intent) \<Rightarrow> Some (intentId intent)
      | Some (PaymentIntentPaymentFailed intent) \<Rightarrow> Some (intentId intent)
      | _ \<Rightarrow> None)"

fun step :: "op \<Rightarrow> order \<Rightarrow> order" where
  "step (Accept c now) ord = saved (accept c now (Some ord)) ord"
| "step (UpdateStatus c now b) ord = saved (updateStatus c now b (Some ord)) ord"
| "step (Rate c now r cmt users) ord = saved (fst (rate c now r cmt users (Some ord))) ord"
| "step (CreatePaymentIntent c create) ord = saved (createPaymentIntent c create (Some ord)) ord"
| "step (ConfirmPayment c now pid retrieve) ord =
     saved (confirmPayment c now pid retrieve (Some ord)) ord"
| "step (Webhook now ev) ord =
     (if eventIntent ev \<noteq> None \<and> stripePaymentIntentId (paymentDetails ord) = eventIntent ev
      then saved (webhook now ev (Some ord)) ord else ord)"
| "step (Refund c now rsn refundsCreate) ord = saved (refund c now rsn refundsCreate (Some ord)) ord"
| "step (AdminUpdateStatus c now st rsn) ord = saved (adminUpdateStatus c now st rsn (Some ord)) ord"

fun isAdminOverride :: "op \<Rightarrow> bool" where
  "isAdminOverride (AdminUpdateStatus c now st rsn) = True"
| "isAdminOverride _ = False"

fun trace :: "op list \<Rightarrow> order \<Rightarrow> order list" where
  "trace [] ord = [ord]"
| "trace (x # xs) ord = ord # trace xs (step x ord)"


section \<open>Relations for stating the properties\<close>

text \<open>
  The adjacency graph of the specification (section 4.1): the chain
  pending, confirmed, driver_assigned, driver_en_route, arrived, delivering, completed,
  and cancelled from every status but the two terminal ones. It is not part of the
  program; it says what the status request is measured against.
\<close>

fun specNext :: "status \<Rightarrow> status option" where
  "specNext Pending = Some Confirmed"
| "specNext Confirmed = Some DriverAssigned"
| "specNext DriverAssigned = Some DriverEnRoute"
| "specNext DriverEnRoute = Some Arrived"
| "specNext Arrived = Some Delivering"
| "specNext Delivering = Some Completed"
| "specNext Completed = None"
| "specNext Cancelled = None"

definition specTransition :: "status \<Rightarrow> status \<Rightarrow> bool" where
  "specTransition s s' =
     (specNext s = Some s' \<or> (s' = Cancelled \<and> s \<noteq> Completed \<and> s \<noteq> Cancelled))"

text \<open>What each operation can do to the status of the order it reaches.\<close>

fun opTransition :: "op \<Rightarrow> status \<Rightarrow> status \<Rightarrow> bool" where
  "opTransition (Accept c now) s s' = (s' = s \<or> (s = Confirmed \<and> s' = DriverAssigned))"
| "opTransition (UpdateStatus c now b) s s' =
     (s' = s \<or> (s' = newStatus b \<and> s' \<in> set statusTargets))"
| "opTransition (Rate c now r cmt users) s s' = (s' = s)"
| "opTransition (CreatePaymentIntent c create) s s' = (s' = s)"
| "opTransition (ConfirmPayment c now pid retrieve) s s' = (s' = s \<or> s' = Confirmed)"
| "opTransition (Webhook now ev) s s' = (s' = s \<or> s' = Confirmed)"
| "opTransition (Refund c now rsn refundsCreate) s s' =
     (s' = s \<or> (s \<noteq> Completed \<and> s' = Cancelled))"
| "opTransition (AdminUpdateStatus c now st rsn) s s' = True"

text \<open>An assignment milestone comes with a driver: accept writes both.\<close>

definition wfAssigned :: "order \<Rightarrow> bool" where
  "wfAssigned ord = (driverAssigned (tracking ord) = None \<or> driver ord \<noteq> None)"

definition arrivedTime :: "order \<Rightarrow> date option" where
  "arrivedTime ord = map_option arrivedTimestamp (arrived (tracking ord))"

definition paidTime :: "order \<Rightarrow> date option" where
  "paidTime ord = paidAt (paymentDetails ord)"

text \<open>The unit roundoff of binary64: the relative error of one rounding.\<close>

definition unitRoundoff :: rat where
  "unitRoundoff = 1 / 2 ^ 53"

section \<open>Example data\<close>

definition customer1 :: caller where
  "customer1 = \<lparr>userId = ''customer1'', callerType = Customer\<rparr>"

definition customer2 :: caller where
  "customer2 = \<lparr>userId = ''customer2'', callerType = Customer\<rparr>"

definition driver1 :: caller where
  "driver1 = \<lparr>userId = ''driver1'', callerType = Driver\<rparr>"

definition driver2 :: caller where
  "driver2 = \<lparr>userId = ''driver2'', callerType = Driver\<rparr>"

definition statusRequest :: "status \<Rightarrow> statusBody" where
  "statusRequest st = \<lparr>newStatus = st, bodyLocation = None, bodySignature = None,
     bodyPhoto = None, cancelReason = None\<rparr>"

definition address1 :: deliveryAddress where
  "address1 = \<lparr>street = ''1 Main St'', city = ''Pune'', state = ''MH'', zipCode = ''411001'',
     coordinates = Some \<lparr>latitude = 18, longitude = 73\<rparr>\<rparr>"

text \<open>The specification's example order, and a diesel order of 13 litres.\<close>

definition orderBody1 :: orderBody where
  "orderBody1 = \<lparr>bodyFuelType = Petrol, bodyQuantity = BodyNumber 10, bodyAddress = address1,
     bodyPaymentMethod = Card\<rparr>"

definition orderBody13 :: orderBody where
  "orderBody13 = \<lparr>bodyFuelType = Diesel, bodyQuantity = BodyNumber 13, bodyAddress = address1,
     bodyPaymentMethod = Card\<rparr>"

text \<open>A paid, confirmed order of \<open>customer1\<close> that no driver has accepted yet.\<close>

definition order1 :: order where
  "order1 = \<lparr>orderId = ''order1'', customer = ''customer1'', driver = None,
     fuelType = Petrol, quantity = 10, pricePerLiter = 95.50,
     totalAmount = round_double 1176.90,
     deliveryAddress = address1, status = Confirmed, paymentStatus = Paid,
     paymentMethod = Card,
     paymentDetails = \<lparr>transactionId = Some ''pi_1'', stripePaymentIntentId = Some ''pi_1'',
       paidAt = Some 100\<rparr>,
     actualDeliveryTime = None, deliveryFee = 50, taxes = round_double 171.9,
     tracking = \<lparr>orderPlaced = \<lparr>placedTimestamp = 50\<rparr>, driverAssigned = None,
       driverEnRoute = None, arrived = None, delivering = None, completed = None,
       cancelled = None\<rparr>,
     rating = \<lparr>customerRating = emptySlot, driverRating = emptySlot\<rparr>,
     adminNotes = None\<rparr>"

text \<open>The same order before payment, with its payment intent created.\<close>

definition order0 :: order where
  "order0 = order1\<lparr>status := Pending, paymentStatus := PaymentPending,
     paymentDetails := \<lparr>transactionId = None, stripePaymentIntentId = Some ''pi_1'',
       paidAt = None\<rparr>\<rparr>"

text \<open>The same order delivered by \<open>driver1\<close>.\<close>

definition order2 :: order where
  "order2 = order1\<lparr>driver := Some ''driver1'', status := Completed,
     actualDeliveryTime := Some 600,
     tracking := \<lparr>orderPlaced = \<lparr>placedTimestamp = 50\<rparr>,
       driverAssigned = Some \<lparr>assignedTimestamp = 200, driverId = ''driver1''\<rparr>,
       driverEnRoute = Some \<lparr>enRouteTimestamp = 300, estimatedArrival = 1800300\<rparr>,
       arrived = Some \<lparr>arrivedTimestamp = 400, location = None\<rparr>,
       delivering = Some \<lparr>deliveringTimestamp = 500\<rparr>,
       completed = Some \<lparr>completedTimestamp = 600, signature = None, photo = None\<rparr>,
       cancelled = None\<rparr>\<rparr>"

definition delivery :: "op list" where
  "delivery = [Accept driver1 200, UpdateStatus driver1 300 (statusRequest DriverEnRoute),
     UpdateStatus driver1 400 (statusRequest Arrived),
     UpdateStatus driver1 500 (statusRequest Delivering),
     UpdateStatus driver1 600 (statusRequest Completed)]"

definition gatewayRefunds :: "string \<Rightarrow> string option" where
  "gatewayRefunds intent = Some ''re_1''"

definition gatewaySucceeded :: "string \<Rightarrow> paymentIntent option" where
  "gatewaySucceeded pid = Some \<lparr>intentId = pid, intentStatus = ''succeeded''\<rparr>"

definition redelivery :: "op list" where
  "redelivery = [Accept driver1 200, UpdateStatus driver1 300 (statusRequest Completed),
     UpdateStatus driver1 400 (statusRequest DriverEnRoute),
     UpdateStatus driver1 500 (statusRequest Cancelled),
     UpdateStatus driver1 600 (statusRequest Arrived)]"

definition arrivals :: "op list" where
  "arrivals = [Accept driver1 200, UpdateStatus driver1 300 (statusRequest Arrived),
     UpdateStatus driver1 400 (statusRequest Arrived)]"

definition payTwice :: "op list" where
  "payTwice = [ConfirmPayment customer1 100 ''pi_1'' gatewaySucceeded,
     ConfirmPayment customer1 200 ''pi_1'' gatewaySucceeded]"

text \<open>A driver without ratings, and one whose five ratings 1, 1, 1, 1, 3 left the
  double nearest to 1.4 as the average.\<close>

definition users0 :: "objectId \<rightharpoonup> driverDetails" where
  "users0 = [''driver1'' \<mapsto> \<lparr>ratingAvg = 0, totalRatings = 0\<rparr>]"


section \<open>The handlers, step by step\<close>

lemmas handler_defs =
  accept_def updateStatus_def applyStatus_def rate_def createPaymentIntent_def
  confirmPayment_def webhook_def refund_def adminUpdateStatus_def saved_def
  requireDriver_def requireCustomer_def requireAdmin_def statusTargets_def

lemma applyStatus_status: "status (applyStatus c now b ord) = newStatus b"
  by (simp add: applyStatus_def Let_def split: status.splits)

lemma step_opTransition: "opTransition x (status ord) (status (step x ord))"
proof (cases x)
  case (Accept c now)
  then show ?thesis by (simp add: accept_def saved_def Let_def split: option.splits)
next
  case (UpdateStatus c now b)
  then show ?thesis
    by (simp add: updateStatus_def saved_def Let_def applyStatus_status split: option.splits)
next
  case (Rate c now r cmt users)
  then show ?thesis by (simp add: rate_def saved_def Let_def split: option.splits)
next
  case (CreatePaymentIntent c create)
  then show ?thesis
    by (simp add: createPaymentIntent_def saved_def Let_def split: option.splits)
next
  case (ConfirmPayment c now pid retrieve)
  then show ?thesis
    by (simp add: confirmPayment_def saved_def Let_def split: option.splits)
next
  case (Webhook now ev)
  then show ?thesis
    by (simp add: webhook_def saved_def Let_def split: option.splits stripeEvent.splits)
next
  case (Refund c now rsn refundsCreate)
  then show ?thesis by (simp add: refund_def saved_def Let_def split: option.splits)
next
  case (AdminUpdateStatus c now st rsn)
  then show ?thesis by simp
qed

lemma trace_length: "length (trace ops ord) = Suc (length ops)"
  by (induction ops arbitrary: ord) simp_all

lemma trace_nth_0: "trace ops ord ! 0 = ord"
  by (cases ops) simp_all

lemma trace_nth_Suc:
  "i < length ops \<Longrightarrow> trace ops ord ! Suc i = step (ops ! i) (trace ops ord ! i)"
proof (induction ops arbitrary: ord i)
  case Nil
  then show ?case by simp
next
  case (Cons x xs)
  show ?case
  proof (cases i)
    case 0
    then show ?thesis by (simp add: trace_nth_0)
  next
    case (Suc k)
    with Cons.prems have "k < length xs" by simp
    from Cons.IH [OF this] Suc show ?thesis by simp
  qed
qed

lemma applyStatus_tracking_kept:
  "orderPlaced (tracking (applyStatus c now b ord)) = orderPlaced (tracking ord)
   \<and> driverAssigned (tracking (applyStatus c now b ord)) = driverAssigned (tracking ord)
   \<and> driver (applyStatus c now b ord) = driver ord"
  by (simp add: applyStatus_def Let_def split: status.splits)

lemma step_keeps_placed_assigned:
  "orderPlaced (tracking (step x ord)) = orderPlaced (tracking ord)
   \<and> (wfAssigned ord \<longrightarrow> wfAssigned (step x ord))
   \<and> (wfAssigned ord \<and> driverAssigned (tracking ord) \<noteq> None \<longrightarrow>
        driverAssigned (tracking (step x ord)) = driverAssigned (tracking ord))"
proof (cases x)
  case (Accept c now)
  then show ?thesis
    by (auto simp add: accept_def saved_def Let_def wfAssigned_def split: option.splits)
next
  case (UpdateStatus c now b)
  then show ?thesis
    by (simp add: updateStatus_def saved_def Let_def wfAssigned_def applyStatus_tracking_kept
        split: option.splits)
next
  case (Rate c now r cmt users)
  then show ?thesis by (simp add: rate_def saved_def Let_def wfAssigned_def split: option.splits)
next
  case (CreatePaymentIntent c create)
  then show ?thesis
    by (simp add: createPaymentIntent_def saved_def Let_def wfAssigned_def split: option.splits)
next
  case (ConfirmPayment c now pid retrieve)
  then show ?thesis
    by (simp add: confirmPayment_def saved_def Let_def wfAssigned_def split: option.splits)
next
  case (Webhook now ev)
  then show ?thesis
    by (simp add: webhook_def saved_def Let_def wfAssigned_def
        split: option.splits stripeEvent.splits)
next
  case (Refund c now rsn refundsCreate)
  then show ?thesis
    by (simp add: refund_def saved_def Let_def wfAssigned_def split: option.splits)
next
  case (AdminUpdateStatus c now st rsn)
  then show ?thesis
    by (simp add: adminUpdateStatus_def saved_def Let_def wfAssigned_def split: option.splits)
qed

lemma trace_wfAssigned:
  "wfAssigned ord \<Longrightarrow> k \<le> length ops \<Longrightarrow> wfAssigned (trace ops ord ! k)"
proof (induction k)
  case 0
  then show ?case by (simp add: trace_nth_0)
next
  case (Suc k)
  then have "k < length ops" and "wfAssigned (trace ops ord ! k)" by simp_all
  then show ?case using step_keeps_placed_assigned [of "ops ! k" "trace ops ord ! k"]
    by (simp add: trace_nth_Suc)
qed

lemma trace_keeps_placed_assigned:
  assumes "wfAssigned ord" and "i \<le> j" and "j \<le> length ops"
  shows "orderPlaced (tracking (trace ops ord ! j)) = orderPlaced (tracking (trace ops ord ! i))
       \<and> (driverAssigned (tracking (trace ops ord ! i)) \<noteq> None \<longrightarrow>
            driverAssigned (tracking (trace ops ord ! j))
              = driverAssigned (tracking (trace ops ord ! i)))"
  using assms(2,3)
proof (induction j rule: dec_induct)
  case base
  then show ?case by simp
next
  case (step n)
  then have n: "n < length ops" "n \<le> length ops" by simp_all
  have w: "wfAssigned (trace ops ord ! n)" using assms(1) n(2) by (rule trace_wfAssigned)
  from step.IH n(2) step_keeps_placed_assigned [of "ops ! n" "trace ops ord ! n"] w
  show ?case by (auto simp add: trace_nth_Suc [OF n(1)])
qed

lemma newOrder_wfAssigned:
  "wfAssigned (newOrder c now newId q b)
   \<and> orderPlaced (tracking (newOrder c now newId q b)) = \<lparr>placedTimestamp = now\<rparr>"
  by (simp add: newOrder_def wfAssigned_def Let_def)

lemma order2_reached: "last (trace delivery order1) = order2"
  by (simp add: delivery_def order1_def order2_def driver1_def statusRequest_def
      handler_defs Let_def)

lemma confirmPayment_success:
  assumes "code (fst (confirmPayment c now pid retrieve (Some ord))) = 200"
  shows "callerType c = Customer \<and> pid \<noteq> [] \<and> customer ord = userId c
       \<and> (\<exists>intent. retrieve pid = Some intent \<and> intentStatus intent = ''succeeded'')"
  using assms
  by (auto simp add: confirmPayment_def requireCustomer_def Let_def
      split: option.splits if_splits)

lemma confirmPayment_paid:
  assumes "callerType c = Customer" and "pid \<noteq> []" and "customer ord = userId c"
    and "retrieve pid = Some intent" and "intentStatus intent = ''succeeded''"
  shows "confirmPayment c now pid retrieve (Some ord) =
           (Response 200 ''Payment confirmed successfully'',
            Some (ord\<lparr>paymentStatus := Paid,
              paymentDetails := (paymentDetails ord)\<lparr>
                transactionId := Some (intentId intent), paidAt := Some now\<rparr>,
              status := Confirmed\<rparr>),
            [(Everyone, PaymentConfirmed)])"
  using assms by (simp add: confirmPayment_def requireCustomer_def Let_def)

lemma webhook_paid:
  "webhook now (Some (PaymentIntentSucceeded intent)) (Some ord) =
     (Response 200 ''received'',
      Some (ord\<lparr>paymentStatus := Paid,
        paymentDetails := (paymentDetails ord)\<lparr>
          transactionId := Some (intentId intent), paidAt := Some now\<rparr>,
        status := Confirmed\<rparr>),
      [(CustomerRoom (customer ord), PaymentSuccess)])"
  by (simp add: webhook_def Let_def)

section \<open>Rounding to a double\<close>

text \<open>
  \<open>ilog2\<close> is the binary exponent (\<open>ilog2_le\<close>, \<open>ilog2_less\<close>), so
  \<open>round_double\<close> keeps 53 significant bits; one rounding moves a value of the normal
  range by at most the fraction \<open>2 ^ -53\<close> of it, and leaves an integer below
  \<open>2 ^ 53\<close> as it is.
\<close>

lemma pow2_powi: "pow2 e = 2 powi e"
  by (simp add: pow2_def power_int_def inverse_eq_divide power_one_over)

lemma pow2_pos: "0 < pow2 e"
  by (simp add: pow2_powi zero_less_power_int)

lemma pow2_diff: "pow2 (a - b) = pow2 a / pow2 b"
  by (simp add: pow2_powi power_int_diff)

lemma pow2_mono: "a \<le> b \<Longrightarrow> pow2 a \<le> pow2 b"
  by (simp add: pow2_powi power_int_increasing)

lemma pow2_nat: "0 \<le> e \<Longrightarrow> pow2 e = 2 ^ nat e"
  by (simp add: pow2_def)

lemma ilog2_le:
  assumes "x \<noteq> 0"
  shows "pow2 (ilog2 x) \<le> \<bar>x\<bar>"
proof -
  obtain p q where pq: "quotient_of \<bar>x\<bar> = (p, q)" by (cases "quotient_of \<bar>x\<bar>")
  then have q: "0 < q" by (rule quotient_of_denom_pos)
  have xe: "\<bar>x\<bar> = of_int p / of_int q" using pq by (rule quotient_of_div)
  have "0 < \<bar>x\<bar>" using assms by simp
  then have p: "0 < p" using xe q by (simp add: zero_less_divide_iff)
  let ?e = "bitlen p - bitlen q"
  have bp: "1 \<le> bitlen p" using p bitlen_eq_zero_iff [of p] bitlen_nonneg [of p] by linarith
  have bq: "0 \<le> bitlen q" by (rule bitlen_nonneg)
  have lo: "pow2 (bitlen p - 1) \<le> of_int p"
  proof -
    have "(2::int) ^ nat (bitlen p - 1) \<le> p" using bitlen_bounds [OF p] by simp
    then have "(of_int ((2::int) ^ nat (bitlen p - 1)) :: rat) \<le> of_int p"
      by (simp only: of_int_le_iff)
    then show ?thesis using bp by (simp add: pow2_nat)
  qed
  have hi: "of_int q \<le> pow2 (bitlen q)"
  proof -
    have "q < (2::int) ^ nat (bitlen q)" using bitlen_bounds [OF q] by simp
    then have "(of_int q :: rat) \<le> of_int ((2::int) ^ nat (bitlen q))"
      by (simp only: of_int_le_iff)
    then show ?thesis using bq by (simp add: pow2_nat)
  qed
  have low: "pow2 (?e - 1) \<le> \<bar>x\<bar>"
  proof -
    have "pow2 (?e - 1) = pow2 (bitlen p - 1) / pow2 (bitlen q)"
      using pow2_diff [of "bitlen p - 1" "bitlen q"] by (simp add: algebra_simps)
    also have "\<dots> \<le> of_int p / pow2 (bitlen q)"
      using lo pow2_pos [of "bitlen q"] by (simp add: divide_right_mono)
    also have "\<dots> \<le> of_int p / of_int q"
      using hi p q by (simp add: divide_left_mono)
    finally show ?thesis by (simp add: xe)
  qed
  show ?thesis using low pq by (simp add: ilog2_def Let_def)
qed

lemma ilog2_less:
  assumes "x \<noteq> 0"
  shows "\<bar>x\<bar> < pow2 (ilog2 x + 1)"
proof -
  obtain p q where pq: "quotient_of \<bar>x\<bar> = (p, q)" by (cases "quotient_of \<bar>x\<bar>")
  then have q: "0 < q" by (rule quotient_of_denom_pos)
  have xe: "\<bar>x\<bar> = of_int p / of_int q" using pq by (rule quotient_of_div)
  have "0 < \<bar>x\<bar>" using assms by simp
  then have p: "0 < p" using xe q by (simp add: zero_less_divide_iff)
  let ?e = "bitlen p - bitlen q"
  have bq: "1 \<le> bitlen q" using q bitlen_eq_zero_iff [of q] bitlen_nonneg [of q] by linarith
  have bp: "0 \<le> bitlen p" by (rule bitlen_nonneg)
  have hi: "of_int p < pow2 (bitlen p)"
  proof -
    have "p < (2::int) ^ nat (bitlen p)" using bitlen_bounds [OF p] by simp
    then have "(of_int p :: rat) < of_int ((2::int) ^ nat (bitlen p))"
      by (simp only: of_int_less_iff)
    then show ?thesis using bp by (simp add: pow2_nat)
  qed
  have lo: "pow2 (bitlen q - 1) \<le> of_int q"
  proof -
    have "(2::int) ^ nat (bitlen q - 1) \<le> q" using bitlen_bounds [OF q] by simp
    then have "(of_int ((2::int) ^ nat (bitlen q - 1)) :: rat) \<le> of_int q"
      by (simp only: of_int_le_iff)
    then show ?thesis using bq by (simp add: pow2_nat)
  qed
  have up: "\<bar>x\<bar> < pow2 (?e + 1)"
  proof -
    have "\<bar>x\<bar> = of_int p / of_int q" by (rule xe)
    also have "\<dots> < pow2 (bitlen p) / of_int q"
      using hi q by (simp add: divide_strict_right_mono)
    also have "\<dots> \<le> pow2 (bitlen p) / pow2 (bitlen q - 1)"
      using lo pow2_pos [of "bitlen q - 1"] pow2_pos [of "bitlen p"]
      by (intro divide_left_mono) (simp_all add: q)
    also have "\<dots> = pow2 (?e + 1)"
      using pow2_diff [of "bitlen p" "bitlen q - 1"] by (simp add: algebra_simps)
    finally show ?thesis .
  qed
  show ?thesis
  proof (cases "pow2 ?e \<le> \<bar>x\<bar>")
    case True
    then show ?thesis using up pq by (simp add: ilog2_def Let_def)
  next
    case False
    then show ?thesis using pq by (simp add: ilog2_def Let_def)
  qed
qed

lemma roundHalfEven_err: "\<bar>of_int (roundHalfEven y) - y\<bar> \<le> 1 / 2"
proof -
  have "of_int \<lfloor>y\<rfloor> \<le> y" and "y < of_int \<lfloor>y\<rfloor> + 1" by linarith+
  then show ?thesis by (auto simp add: roundHalfEven_def Let_def)
qed

lemma round_double_err:
  assumes "pow2 (- 1022) \<le> \<bar>x\<bar>"
  shows "\<bar>round_double x - x\<bar> \<le> \<bar>x\<bar> / 2 ^ 53"
proof -
  have x0: "x \<noteq> 0" using assms pow2_pos [of "- 1022"] by auto
  define e where "e = max (ilog2 x) (- 1022)"
  define u where "u = pow2 (e - 52)"
  have u: "0 < u" by (simp add: u_def pow2_pos)
  have rd: "round_double x = of_int (roundHalfEven (x / u)) * u"
    using x0 by (simp add: round_double_def Let_def e_def u_def)
  have "round_double x - x = (of_int (roundHalfEven (x / u)) - x / u) * u"
    using u by (simp add: rd field_simps)
  then have "\<bar>round_double x - x\<bar> = \<bar>of_int (roundHalfEven (x / u)) - x / u\<bar> * u"
    using u by (simp add: abs_mult)
  also have "\<dots> \<le> (1 / 2) * u"
    using roundHalfEven_err [of "x / u"] u by (simp add: mult_right_mono)
  finally have a: "\<bar>round_double x - x\<bar> \<le> u / 2" by simp
  have "pow2 e \<le> \<bar>x\<bar>"
    using ilog2_le [OF x0] assms by (simp add: e_def max_def)
  moreover have "u = pow2 e / 2 ^ 52"
    using pow2_diff [of e 52] by (simp add: u_def pow2_nat)
  ultimately have "u / 2 \<le> \<bar>x\<bar> / 2 ^ 53" by (simp add: divide_right_mono)
  with a show ?thesis by linarith
qed

lemma round_double_between:
  assumes "pow2 (- 1022) \<le> lo" and "lo \<le> x" and "x \<le> hi"
  shows "lo * (1 - unitRoundoff) \<le> round_double x
       \<and> round_double x \<le> hi * (1 + unitRoundoff)"
  unfolding unitRoundoff_def
proof -
  have lo: "0 < lo" using assms(1) pow2_pos [of "- 1022"] by linarith
  then have x: "0 < x" using assms(2) by linarith
  have "pow2 (- 1022) \<le> \<bar>x\<bar>" using assms(1,2) by linarith
  from round_double_err [OF this] x
  have e: "\<bar>round_double x - x\<bar> \<le> x / 2 ^ 53" by simp
  have "lo * (1 - 1 / 2 ^ 53) \<le> x * (1 - 1 / 2 ^ 53)"
    using assms(2) by (simp add: mult_right_mono)
  moreover have "x * (1 + 1 / 2 ^ 53) \<le> hi * (1 + 1 / 2 ^ 53)"
    using assms(3) by (simp add: mult_right_mono)
  moreover have "x * (1 - 1 / 2 ^ 53) \<le> round_double x"
    and "round_double x \<le> x * (1 + 1 / 2 ^ 53)"
  proof -
    from e have "round_double x - x \<le> x / 2 ^ 53" and "x - round_double x \<le> x / 2 ^ 53"
      by linarith+
    then show "x * (1 - 1 / 2 ^ 53) \<le> round_double x"
      and "round_double x \<le> x * (1 + 1 / 2 ^ 53)"
      by (simp_all add: algebra_simps)
  qed
  ultimately show "lo * (1 - 1 / 2 ^ 53) \<le> round_double x
       \<and> round_double x \<le> hi * (1 + 1 / 2 ^ 53)"
    by linarith
qed

lemma pow2_small: "pow2 (- 1022) \<le> 1 / 16"
  using pow2_mono [of "- 1022" "- 4"] by (simp add: pow2_def)

lemma tax_rate_double: "round_double 0.18 = 3242591731706757 / 18014398509481984"
  by code_simp

lemma total_error:
  assumes "1 \<le> r"
  shows "\<bar>fadd (fadd (round_double r) 50) (fmul (round_double r) (round_double 0.18))
           - (r + 50 + 0.18 * r)\<bar> \<le> (r + 50 + 0.18 * r) / 2 ^ 50"
proof -
  define c :: rat where "c = 3242591731706757 / 18014398509481984"
  define base where "base = round_double r"
  define tax where "tax = round_double (base * c)"
  define sub where "sub = round_double (base + 50)"
  define total where "total = round_double (sub + tax)"
  have tot: "fadd (fadd (round_double r) 50) (fmul (round_double r) (round_double 0.18)) = total"
    by (simp only: fadd_def fmul_def tax_rate_double total_def sub_def tax_def base_def c_def)
  note small = pow2_small
  have e1: "1 - unitRoundoff = 9007199254740991 / 9007199254740992"
    and e2: "1 + unitRoundoff = 9007199254740993 / 9007199254740992"
    by (simp_all add: unitRoundoff_def)
  have b: "r * (1 - unitRoundoff) \<le> base \<and> base \<le> r * (1 + unitRoundoff)"
    unfolding base_def using assms small
    by (intro round_double_between) linarith+
  have t: "r * (1 - unitRoundoff) * c * (1 - unitRoundoff) \<le> tax
      \<and> tax \<le> r * (1 + unitRoundoff) * c * (1 + unitRoundoff)"
    unfolding tax_def
  proof (intro round_double_between)
    show "pow2 (- 1022) \<le> r * (1 - unitRoundoff) * c" using assms small by (simp add: e1 c_def)
    show "r * (1 - unitRoundoff) * c \<le> base * c" using b by (simp add: c_def)
    show "base * c \<le> r * (1 + unitRoundoff) * c" using b by (simp add: c_def)
  qed
  have s: "(r * (1 - unitRoundoff) + 50) * (1 - unitRoundoff) \<le> sub
      \<and> sub \<le> (r * (1 + unitRoundoff) + 50) * (1 + unitRoundoff)"
    unfolding sub_def
  proof (intro round_double_between)
    show "pow2 (- 1022) \<le> r * (1 - unitRoundoff) + 50" using assms small by (simp add: e1)
    show "r * (1 - unitRoundoff) + 50 \<le> base + 50" using b by simp
    show "base + 50 \<le> r * (1 + unitRoundoff) + 50" using b by simp
  qed
  have f: "((r * (1 - unitRoundoff) + 50) * (1 - unitRoundoff)
            + r * (1 - unitRoundoff) * c * (1 - unitRoundoff)) * (1 - unitRoundoff) \<le> total
      \<and> total \<le> ((r * (1 + unitRoundoff) + 50) * (1 + unitRoundoff)
            + r * (1 + unitRoundoff) * c * (1 + unitRoundoff)) * (1 + unitRoundoff)"
    unfolding total_def
  proof (intro round_double_between)
    show "pow2 (- 1022) \<le> (r * (1 - unitRoundoff) + 50) * (1 - unitRoundoff)
            + r * (1 - unitRoundoff) * c * (1 - unitRoundoff)"
      using assms small by (simp add: e1 c_def algebra_simps)
    show "(r * (1 - unitRoundoff) + 50) * (1 - unitRoundoff)
            + r * (1 - unitRoundoff) * c * (1 - unitRoundoff) \<le> sub + tax"
      using s t by linarith
    show "sub + tax \<le> (r * (1 + unitRoundoff) + 50) * (1 + unitRoundoff)
            + r * (1 + unitRoundoff) * c * (1 + unitRoundoff)"
      using s t by linarith
  qed
  note f1 = f [unfolded e1 e2 c_def, THEN conjunct1]
  note f2 = f [unfolded e1 e2 c_def, THEN conjunct2]
  have lower: "(r + 50 + 0.18 * r) - (r + 50 + 0.18 * r) / 2 ^ 50 \<le> total"
    using f1 assms by (simp add: algebra_simps add_divide_distrib)
  have upper: "total \<le> (r + 50 + 0.18 * r) + (r + 50 + 0.18 * r) / 2 ^ 50"
    using f2 assms by (simp add: algebra_simps add_divide_distrib)
  from lower upper have "\<bar>total - (r + 50 + 0.18 * r)\<bar> \<le> (r + 50 + 0.18 * r) / 2 ^ 50"
    by linarith
  then show ?thesis by (simp only: tot)
qed








lemma plainDecimal_from_one:
  assumes "1 \<le> \<bar>x\<bar>" and "\<bar>x\<bar> < 10 ^ 21"
  shows "plainDecimal x"
proof -
  have "round_double (1 / 10 ^ 6) = 4722366482869645 / 4722366482869645213696"
    by code_simp
  then have "round_double (1 / 10 ^ 6) \<le> 1" by simp
  with assms show ?thesis by (simp add: plainDecimal_def)
qed

lemma validOrderBody_examples:
  "validOrderBody 10 orderBody1 \<and> validOrderBody 13 orderBody13"
proof -
  have "plainDecimal 10" "plainDecimal 13" "plainDecimal 18" "plainDecimal 73"
    by (rule plainDecimal_from_one; simp)+
  then show ?thesis
    by (simp add: validOrderBody_def orderBody1_def orderBody13_def address1_def)
qed

lemma newOrder_total:
  "totalAmount (newOrder c now newId q b) =
      fadd (fadd (fmul q (if bodyFuelType b = Petrol then 95.50 else 89.75)) 50)
        (fmul (fmul q (if bodyFuelType b = Petrol then 95.50 else 89.75))
           (round_double 0.18))"
  by (simp add: newOrder_def Let_def)

lemma example_total:
  "totalAmount (newOrder customer1 50 ''order1'' 10 orderBody1) = round_double 1176.90"
proof -
  have f: "fadd (fadd (fmul 10 95.50) 50) (fmul (fmul 10 95.50) (round_double 0.18))
      = round_double 1176.90"
    by code_simp
  from newOrder_total [of customer1 50 "''order1''" 10 orderBody1] f show ?thesis
    by (simp add: orderBody1_def)
qed

text \<open>
  What the route answers: a caller who is not a customer gets 403, a body that fails the
  validators 400, and every body that passes them 500. No request stores an order.
\<close>

lemma createOrder_answers:
  assumes "bodyQuantity b = BodyNumber q"
  shows "createOrder c now newId b =
           Some (if callerType c \<noteq> Customer
                 then (Response 403 ''Access denied. Customer privileges required.'', None, [])
                 else if \<not> validOrderBody q b then (Response 400 ''Validation failed'', None, [])
                 else (Response 500 ''Server error creating order'', None, []))"
  using assms by (simp add: createOrder_def requireCustomer_def saveNew_def)

lemma createOrder_stores_nothing:
  "createOrder c now newId b = Some out \<Longrightarrow> snd out = (None, [])"
  by (auto simp add: createOrder_def requireCustomer_def saveNew_def
      split: bodyValue.splits if_splits)

lemma rate_driver_average:
  assumes "callerType c = Customer" and "customer ord = userId c"
    and "status ord = Completed" and "\<not> truthyScore (customerRating (rating ord))"
    and "validRating r" and "driver ord = Some d" and "users d = Some dd"
  shows "rate c now r cmt users (Some ord) =
           ((Response 200 ''Rating submitted successfully'',
             Some (ord\<lparr>rating := (rating ord)\<lparr>customerRating :=
               \<lparr>score = Some r, comment = cmt, ratedAt = Some now\<rparr>\<rparr>\<rparr>), []),
            users(d \<mapsto> dd\<lparr>
              ratingAvg := fdiv (fadd (fmul (ratingAvg dd) (totalRatings dd)) r)
                             (fadd (totalRatings dd) 1),
              totalRatings := fadd (totalRatings dd) 1\<rparr>))"
  using assms by (simp add: rate_def updateDriverRating_def orZero_def Let_def)

lemma order2_rateable:
  "callerType customer1 = Customer \<and> customer (order2\<lparr>orderId := i\<rparr>) = userId customer1
   \<and> status (order2\<lparr>orderId := i\<rparr>) = Completed
   \<and> \<not> truthyScore (customerRating (rating (order2\<lparr>orderId := i\<rparr>)))
   \<and> driver (order2\<lparr>orderId := i\<rparr>) = Some ''driver1''"
  by (simp add: customer1_def order2_def order1_def truthyScore_def emptySlot_def)



section \<open>The order's status under the operations\<close>

text \<open>
  The status request writes its target whatever the current status is. From the
  confirmed order \<open>order1\<close>, without any admin override, the assigned driver moves
  the order from driver_assigned straight to completed, from completed back to
  driver_en_route, then to cancelled, and from cancelled to arrived; none of these moves
  is an edge of the specification's graph.
\<close>

theorem status_not_forward_only:
  "filter isAdminOverride redelivery = []
   \<and> map status (trace redelivery order1) =
       [Confirmed, DriverAssigned, Completed, DriverEnRoute, Cancelled, Arrived]
   \<and> \<not> specTransition DriverAssigned Completed
   \<and> \<not> specTransition Completed DriverEnRoute
   \<and> \<not> specTransition Cancelled Arrived"
  by (simp add: redelivery_def order1_def driver1_def statusRequest_def handler_defs
      specTransition_def Let_def)

text \<open>
  C1, as the code has it. In every sequence of operations on an order, each operation
  changes the status only in its own way: accept moves confirmed to driver_assigned; a
  status request moves any status, the terminal ones included, to its target, one of
  driver_en_route, arrived, delivering, completed and cancelled; payment confirmation
  and the webhook's success event set confirmed; refund moves any status but completed to
  cancelled; rating and creating a payment intent leave the status. So no operation but
  the admin override ever sets pending, and driver_assigned is entered from confirmed
  only.
\<close>

theorem status_changes_by_operation:
  assumes "i < length ops"
  shows "opTransition (ops ! i) (status (trace ops ord ! i)) (status (trace ops ord ! Suc i))
       \<and> (\<not> isAdminOverride (ops ! i) \<longrightarrow>
            (status (trace ops ord ! Suc i) = Pending \<longrightarrow> status (trace ops ord ! i) = Pending)
          \<and> (status (trace ops ord ! Suc i) = DriverAssigned \<longrightarrow>
               status (trace ops ord ! i) = Confirmed
               \<or> status (trace ops ord ! i) = DriverAssigned))"
proof -
  let ?x = "ops ! i" and ?s = "status (trace ops ord ! i)"
  have nxt: "trace ops ord ! Suc i = step ?x (trace ops ord ! i)"
    using assms by (rule trace_nth_Suc)
  have tr: "opTransition ?x ?s (status (trace ops ord ! Suc i))"
    unfolding nxt by (rule step_opTransition)
  have "\<not> isAdminOverride ?x \<Longrightarrow> status (trace ops ord ! Suc i) = Pending \<Longrightarrow> ?s = Pending"
    using tr by (cases ?x) (auto simp add: statusTargets_def)
  moreover have "\<not> isAdminOverride ?x \<Longrightarrow> status (trace ops ord ! Suc i) = DriverAssigned
      \<Longrightarrow> ?s = Confirmed \<or> ?s = DriverAssigned"
    using tr by (cases ?x) (auto simp add: statusTargets_def)
  ultimately show ?thesis using tr by blast
qed

theorem status_changes_by_operation_witness:
  "(2::nat) < length redelivery
   \<and> opTransition (redelivery ! 2) (status (trace redelivery order1 ! 2))
        (status (trace redelivery order1 ! Suc 2))
   \<and> status (trace redelivery order1 ! 2) = Completed
   \<and> status (trace redelivery order1 ! Suc 2) = DriverEnRoute"
proof -
  have l: "(2::nat) < length redelivery" by (simp add: redelivery_def)
  have s: "map status (trace redelivery order1) =
       [Confirmed, DriverAssigned, Completed, DriverEnRoute, Cancelled, Arrived]"
    by (simp add: redelivery_def order1_def driver1_def statusRequest_def handler_defs Let_def)
  have n: "status (trace redelivery order1 ! 2) = Completed
      \<and> status (trace redelivery order1 ! Suc 2) = DriverEnRoute"
  proof -
    have "length (trace redelivery order1) = 6" by (simp add: trace_length redelivery_def)
    then have "status (trace redelivery order1 ! 2) = map status (trace redelivery order1) ! 2"
      and "status (trace redelivery order1 ! Suc 2) = map status (trace redelivery order1) ! Suc 2"
      by simp_all
    then show ?thesis by (simp add: s)
  qed
  from status_changes_by_operation [OF l, of order1] l n show ?thesis by simp
qed

section \<open>Applying the paid effect twice\<close>

text \<open>
  Confirming the same payment twice, at the times 100 and 200: the payment status is
  paid after the first confirmation and stays paid, and \<open>paidAt\<close> holds the time of the
  second confirmation, not of the first.
\<close>

theorem paid_twice_overwrites_paidAt:
  "map paymentStatus (trace payTwice order0) = [PaymentPending, Paid, Paid]
   \<and> map paidTime (trace payTwice order0) = [None, Some 100, Some 200]"
  by (simp add: payTwice_def paidTime_def order0_def order1_def customer1_def
      gatewaySucceeded_def handler_defs Let_def)

text \<open>
  C2, as the code has it. After a successful payment confirmation the payment status is
  paid and \<open>paidAt\<close> is the time of the confirmation. A second confirmation of the same
  payment intent, which the gateway still reports as succeeded, is answered 200 again
  and leaves the payment status paid, but it is not a no-op: of the paths of the record
  it changes \<open>paidAt\<close>, which takes the time of the second confirmation, and nothing
  else. A webhook request that reaches its handler after the confirmation is a no-op:
  it is answered 400 and the order stays as the confirmation stored it, \<open>paidAt\<close>
  included.
\<close>

theorem paid_twice:
  assumes "code (fst (confirmPayment c now1 pid retrieve (Some ord))) = 200"
    and "fst (snd (confirmPayment c now1 pid retrieve (Some ord))) = Some ord1"
  shows "paymentStatus ord1 = Paid \<and> paidAt (paymentDetails ord1) = Some now1
       \<and> confirmPayment c now2 pid retrieve (Some ord1) =
           (Response 200 ''Payment confirmed successfully'',
            Some (ord1\<lparr>paymentDetails := (paymentDetails ord1)\<lparr>paidAt := Some now2\<rparr>\<rparr>),
            [(Everyone, PaymentConfirmed)])
       \<and> webhookRequest now2 (Some ord1) = (Response 400 ''Webhook Error'', Some ord1, [])"
proof -
  from confirmPayment_success [OF assms(1)] obtain got where
    c: "callerType c = Customer" and p: "pid \<noteq> []" and o: "customer ord = userId c"
    and g: "retrieve pid = Some got" and s: "intentStatus got = ''succeeded''"
    by blast
  note cp = confirmPayment_paid [where retrieve = retrieve and pid = pid and intent = got,
      OF c p _ g s]
  have ord1: "ord1 = ord\<lparr>paymentStatus := Paid,
      paymentDetails := (paymentDetails ord)\<lparr>
        transactionId := Some (intentId got), paidAt := Some now1\<rparr>,
      status := Confirmed\<rparr>"
    using assms(2) by (simp add: cp [OF o])
  have o1: "customer ord1 = userId c"
    using o by (simp add: ord1)
  have a: "paymentStatus ord1 = Paid \<and> paidAt (paymentDetails ord1) = Some now1"
    by (simp add: ord1)
  have b: "confirmPayment c now2 pid retrieve (Some ord1) =
           (Response 200 ''Payment confirmed successfully'',
            Some (ord1\<lparr>paymentDetails := (paymentDetails ord1)\<lparr>paidAt := Some now2\<rparr>\<rparr>),
            [(Everyone, PaymentConfirmed)])"
    by (simp add: cp [OF o1]) (simp add: ord1)
  have d: "webhookRequest now2 (Some ord1) = (Response 400 ''Webhook Error'', Some ord1, [])"
    by (simp add: webhookRequest_def webhook_def)
  from a b d show ?thesis by blast
qed

theorem paid_twice_witness:
  "code (fst (confirmPayment customer1 100 ''pi_1'' gatewaySucceeded (Some order0))) = 200
   \<and> paidAt (paymentDetails (the (fst (snd
        (confirmPayment customer1 100 ''pi_1'' gatewaySucceeded (Some order0)))))) = Some 100
   \<and> paidAt (paymentDetails (the (fst (snd
        (confirmPayment customer1 200 ''pi_1'' gatewaySucceeded
          (fst (snd (confirmPayment customer1 100 ''pi_1'' gatewaySucceeded
            (Some order0))))))))) = Some 200
   \<and> webhookRequest 200
        (fst (snd (confirmPayment customer1 100 ''pi_1'' gatewaySucceeded (Some order0))))
       = (Response 400 ''Webhook Error'',
          fst (snd (confirmPayment customer1 100 ''pi_1'' gatewaySucceeded (Some order0))), [])"
proof -
  let ?first = "confirmPayment customer1 100 ''pi_1'' gatewaySucceeded (Some order0)"
  have ok: "code (fst ?first) = 200"
    by (simp add: confirmPayment_def requireCustomer_def customer1_def order0_def order1_def
        gatewaySucceeded_def Let_def)
  obtain ord1 where s: "fst (snd ?first) = Some ord1"
    by (simp add: confirmPayment_def requireCustomer_def customer1_def order0_def order1_def
        gatewaySucceeded_def Let_def)
  from paid_twice [OF ok s, of 200] ok s show ?thesis by simp
qed

section \<open>Accepting an order\<close>

text \<open>
  C3. For a caller with the driver role and an order that exists, accept succeeds exactly
  when the order is \<open>confirmed\<close> and has no driver. On success the stored order has the
  caller as its driver, status \<open>driver_assigned\<close> and the \<open>driverAssigned\<close> milestone
  with the time of the call and the caller's id, and the customer's room receives
  \<open>orderUpdate\<close>; every later accept on that order, by any driver, is rejected and
  changes nothing, so the driver is set once. Otherwise the order is stored unchanged,
  nothing is emitted and the answer is the rejection
  \<open>400 Order not available for acceptance\<close>.
\<close>

theorem accept_exactly_once:
  assumes "callerType c = Driver"
  shows "(code (fst (accept c now (Some ord))) = 200
            \<longleftrightarrow> status ord = Confirmed \<and> driver ord = None)
       \<and> (status ord = Confirmed \<and> driver ord = None \<longrightarrow>
            accept c now (Some ord) =
              (Response 200 ''Order accepted successfully'',
               Some (ord\<lparr>driver := Some (userId c), status := DriverAssigned,
                 tracking := (tracking ord)\<lparr>driverAssigned :=
                   Some \<lparr>assignedTimestamp = now, driverId = userId c\<rparr>\<rparr>\<rparr>),
               [(CustomerRoom (customer ord), OrderUpdate DriverAssigned)])
            \<and> (callerType c' = Driver \<longrightarrow>
                  accept c' now' (fst (snd (accept c now (Some ord)))) =
                    (Response 400 ''Order not available for acceptance'',
                     fst (snd (accept c now (Some ord))), [])))
       \<and> (\<not> (status ord = Confirmed \<and> driver ord = None) \<longrightarrow>
            accept c now (Some ord) =
              (Response 400 ''Order not available for acceptance'', Some ord, []))"
  using assms by (simp add: accept_def requireDriver_def Let_def)

theorem accept_exactly_once_witness:
  "callerType driver1 = Driver \<and> status order1 = Confirmed \<and> driver order1 = None
   \<and> code (fst (accept driver1 200 (Some order1))) = 200
   \<and> accept driver2 300 (fst (snd (accept driver1 200 (Some order1)))) =
       (Response 400 ''Order not available for acceptance'',
        fst (snd (accept driver1 200 (Some order1))), [])"
proof -
  have d: "callerType driver1 = Driver" "callerType driver2 = Driver"
    by (simp_all add: driver1_def driver2_def)
  have s: "status order1 = Confirmed \<and> driver order1 = None" by (simp add: order1_def)
  from accept_exactly_once [OF d(1), of 200 order1 driver2 300] s d show ?thesis
    by blast
qed

section \<open>Who may send a status request\<close>

text \<open>
  C4 does not hold of the code. The customer check of the status request rejects a
  customer only when the order is not theirs and the target is not cancelled, although
  its answer reads \<open>Customers can only cancel orders\<close>. So \<open>customer2\<close> cancels the
  order of \<open>customer1\<close>, and \<open>customer1\<close>, who is not the order's driver, completes
  their own order; both requests are answered 200 and stored.
\<close>

theorem customer_status_requests:
  "customer order1 \<noteq> userId customer2
   \<and> updateStatus customer2 500 (statusRequest Cancelled) (Some order1) =
       (Response 200 ''Order status updated successfully'',
        Some (order1\<lparr>status := Cancelled,
          tracking := (tracking order1)\<lparr>cancelled :=
            Some \<lparr>cancelledTimestamp = 500, reason = None, cancelledBy = Customer\<rparr>\<rparr>\<rparr>),
        [(CustomerRoom ''customer1'', OrderUpdate Cancelled)])
   \<and> driver order1 \<noteq> Some (userId customer1)
   \<and> code (fst (updateStatus customer1 500 (statusRequest Completed) (Some order1))) = 200
   \<and> status (the (fst (snd (updateStatus customer1 500 (statusRequest Completed)
        (Some order1))))) = Completed"
  by (simp add: updateStatus_def applyStatus_def statusRequest_def statusTargets_def
      customer1_def customer2_def order1_def Let_def)

text \<open>The requests the permission checks do answer with 403.\<close>

lemma updateStatus_forbidden:
  "code (fst (updateStatus c now b (Some ord))) = 403 \<longleftrightarrow>
     newStatus b \<in> set statusTargets
     \<and> (callerType c = Driver \<and> driver ord \<noteq> None \<and> driver ord \<noteq> Some (userId c)
        \<or> callerType c = Customer \<and> customer ord \<noteq> userId c \<and> newStatus b \<noteq> Cancelled)"
  by (auto simp add: updateStatus_def Let_def)

section \<open>Tracking milestones\<close>

text \<open>
  The driver reports the arrival twice, at the times 300 and 400: the second request
  overwrites the timestamp of the arrived milestone.
\<close>

theorem arrived_milestone_overwritten:
  "map arrivedTime (trace arrivals order1) = [None, None, Some 300, Some 400]"
  by (simp add: arrivals_def arrivedTime_def order1_def driver1_def statusRequest_def
      handler_defs Let_def)

text \<open>
  C5, as the code has it. Take a stored order whose assignment milestone, if it has
  one, comes with a driver; accept writes the two together, no operation removes a
  driver, and the document that the creation route builds has neither. Through every
  sequence of operations on it (the admin override included), the placed milestone is
  never written again, and the assignment milestone, once written, is never overwritten.
  The other five milestones are written by every accepted status request that names
  them, with the time of that request, whether they were written before or not.
\<close>

theorem placed_and_assigned_written_once:
  assumes "wfAssigned ord" and "i \<le> j" and "j \<le> length ops"
  shows "orderPlaced (tracking (trace ops ord ! j)) = orderPlaced (tracking ord)
       \<and> (driverAssigned (tracking (trace ops ord ! i)) \<noteq> None \<longrightarrow>
            driverAssigned (tracking (trace ops ord ! j))
              = driverAssigned (tracking (trace ops ord ! i)))
       \<and> (code (fst (updateStatus c now b (Some ord'))) = 200 \<longrightarrow>
            newStatus b \<in> set statusTargets
            \<and> (newStatus b = DriverEnRoute \<longrightarrow>
                 driverEnRoute (tracking (the (fst (snd (updateStatus c now b (Some ord'))))))
                   = Some \<lparr>enRouteTimestamp = now, estimatedArrival = now + 1800000\<rparr>)
            \<and> (newStatus b = Arrived \<longrightarrow>
                 arrived (tracking (the (fst (snd (updateStatus c now b (Some ord'))))))
                   = Some \<lparr>arrivedTimestamp = now, location = bodyLocation b\<rparr>)
            \<and> (newStatus b = Delivering \<longrightarrow>
                 delivering (tracking (the (fst (snd (updateStatus c now b (Some ord'))))))
                   = Some \<lparr>deliveringTimestamp = now\<rparr>)
            \<and> (newStatus b = Completed \<longrightarrow>
                 completed (tracking (the (fst (snd (updateStatus c now b (Some ord'))))))
                   = Some \<lparr>completedTimestamp = now, signature = bodySignature b,
                       photo = bodyPhoto b\<rparr>)
            \<and> (newStatus b = Cancelled \<longrightarrow>
                 cancelled (tracking (the (fst (snd (updateStatus c now b (Some ord'))))))
                   = Some \<lparr>cancelledTimestamp = now, reason = cancelReason b,
                       cancelledBy = callerType c\<rparr>))"
proof -
  have "0 \<le> j" by simp
  from trace_keeps_placed_assigned [OF assms(1) this assms(3)]
  have a: "orderPlaced (tracking (trace ops ord ! j)) = orderPlaced (tracking ord)"
    by (simp add: trace_nth_0)
  from trace_keeps_placed_assigned [OF assms]
  have b: "driverAssigned (tracking (trace ops ord ! i)) \<noteq> None \<longrightarrow>
            driverAssigned (tracking (trace ops ord ! j))
              = driverAssigned (tracking (trace ops ord ! i))"
    by simp
  have c: "code (fst (updateStatus c now b (Some ord'))) = 200 \<longrightarrow>
            newStatus b \<in> set statusTargets
            \<and> (newStatus b = DriverEnRoute \<longrightarrow>
                 driverEnRoute (tracking (the (fst (snd (updateStatus c now b (Some ord'))))))
                   = Some \<lparr>enRouteTimestamp = now, estimatedArrival = now + 1800000\<rparr>)
            \<and> (newStatus b = Arrived \<longrightarrow>
                 arrived (tracking (the (fst (snd (updateStatus c now b (Some ord'))))))
                   = Some \<lparr>arrivedTimestamp = now, location = bodyLocation b\<rparr>)
            \<and> (newStatus b = Delivering \<longrightarrow>
                 delivering (tracking (the (fst (snd (updateStatus c now b (Some ord'))))))
                   = Some \<lparr>deliveringTimestamp = now\<rparr>)
            \<and> (newStatus b = Completed \<longrightarrow>
                 completed (tracking (the (fst (snd (updateStatus c now b (Some ord'))))))
                   = Some \<lparr>completedTimestamp = now, signature = bodySignature b,
                       photo = bodyPhoto b\<rparr>)
            \<and> (newStatus b = Cancelled \<longrightarrow>
                 cancelled (tracking (the (fst (snd (updateStatus c now b (Some ord'))))))
                   = Some \<lparr>cancelledTimestamp = now, reason = cancelReason b,
                       cancelledBy = callerType c\<rparr>)"
    by (cases "newStatus b")
      (simp_all add: updateStatus_def applyStatus_def statusTargets_def Let_def)
  from a b c show ?thesis by blast
qed

theorem placed_and_assigned_written_once_witness:
  "wfAssigned order1 \<and> (1::nat) \<le> 3 \<and> 3 \<le> length arrivals
   \<and> orderPlaced (tracking (trace arrivals order1 ! 3)) = \<lparr>placedTimestamp = 50\<rparr>
   \<and> driverAssigned (tracking (trace arrivals order1 ! 1))
       = Some \<lparr>assignedTimestamp = 200, driverId = ''driver1''\<rparr>
   \<and> driverAssigned (tracking (trace arrivals order1 ! 3))
       = Some \<lparr>assignedTimestamp = 200, driverId = ''driver1''\<rparr>"
proof -
  have w: "wfAssigned order1" by (simp add: wfAssigned_def order1_def)
  have l: "(1::nat) \<le> 3" "3 \<le> length arrivals" by (simp_all add: arrivals_def)
  have p: "orderPlaced (tracking order1) = \<lparr>placedTimestamp = 50\<rparr>" by (simp add: order1_def)
  have one: "driverAssigned (tracking (trace arrivals order1 ! 1))
       = Some \<lparr>assignedTimestamp = 200, driverId = ''driver1''\<rparr>"
    by (simp add: arrivals_def order1_def driver1_def statusRequest_def handler_defs Let_def)
  from placed_and_assigned_written_once [OF w l] one w l p show ?thesis by simp
qed

section \<open>The total of an order\<close>

text \<open>
  For 13 litres of diesel, a body that passes the validators, the formula gives
  13 \<times> 89.75 + 50 + 0.18 \<times> 1166.75 = 1426.765. The total that the handler computes
  and gives to the order is 3137489415207649 / 2199023255552, which JavaScript prints as
  1426.7649999999999: it is below 1426.765, and it is not the double nearest to
  1426.765 either, which is the next double up and closer.
\<close>

theorem order_total_drifts:
  "bodyQuantity orderBody13 = BodyNumber 13 \<and> validOrderBody 13 orderBody13
   \<and> totalAmount (newOrder customer1 50 ''order13'' 13 orderBody13)
       = 3137489415207649 / 2199023255552
   \<and> (13 * 89.75 + 50 + 0.18 * (13 * 89.75) :: rat) = 1426.765
   \<and> (3137489415207649 / 2199023255552 :: rat) < 1426.765
   \<and> round_double 1426.765 = 6274978830415299 / 4398046511104
   \<and> \<bar>6274978830415299 / 4398046511104 - 1426.765 :: rat\<bar>
       < \<bar>3137489415207649 / 2199023255552 - 1426.765\<bar>"
proof -
  have f: "fadd (fadd (fmul 13 89.75) 50) (fmul (fmul 13 89.75) (round_double 0.18))
      = 3137489415207649 / 2199023255552"
    by code_simp
  have g: "round_double 1426.765 = 6274978830415299 / 4398046511104"
    by code_simp
  from newOrder_total [of customer1 50 "''order13''" 13 orderBody13] f g
    validOrderBody_examples
  show ?thesis by (simp add: orderBody13_def)
qed

text \<open>
  C6, as the code has it. For an order request whose body passes the validators, with
  the quantity \<open>q\<close> a number (so \<open>1 \<le> q < 10 ^ 21\<close>) and the unit price \<open>p\<close>, 95.50
  for petrol and 89.75 for diesel, the handler gives the order this unit price, the
  delivery fee 50, the taxes \<open>q \<times> p \<times> 0.18\<close> and the total \<open>(q \<times> p + 50) + taxes\<close>,
  every operation computed in double precision and rounded to nearest. This total
  differs from the exact \<open>q \<times> p + 50 + 0.18 \<times> (q \<times> p)\<close> by at most the fraction
  \<open>2 ^ -50\<close> of it. For the example order (petrol, 10 litres) it is the double nearest
  to 1176.90, the value of the JavaScript literal \<open>1176.90\<close>.
\<close>

theorem order_total:
  fixes c :: caller and now :: date and newId :: objectId and q :: number and b :: orderBody
  defines "ord \<equiv> newOrder c now newId q b"
    and "p \<equiv> (if bodyFuelType b = Petrol then 95.50 else 89.75)"
  assumes "bodyQuantity b = BodyNumber q" and "validOrderBody q b"
  shows "1 \<le> q \<and> q < 10 ^ 21
       \<and> quantity ord = q \<and> pricePerLiter ord = p \<and> deliveryFee ord = 50
       \<and> taxes ord = fmul (fmul q p) (round_double 0.18)
       \<and> totalAmount ord = fadd (fadd (fmul q p) 50) (taxes ord)
       \<and> \<bar>totalAmount ord - (q * p + 50 + 0.18 * (q * p))\<bar>
           \<le> (q * p + 50 + 0.18 * (q * p)) / 2 ^ 50
       \<and> totalAmount (newOrder customer1 50 ''order1'' 10 orderBody1) = round_double 1176.90"
proof -
  have q1: "1 \<le> q \<and> q < 10 ^ 21"
    using assms(4) by (auto simp add: validOrderBody_def plainDecimal_def)
  have "1 \<le> p" by (simp add: p_def)
  with q1 have "1 * 1 \<le> q * p" by (intro mult_mono) simp_all
  then have r: "1 \<le> q * p" by simp
  have t: "totalAmount ord = fadd (fadd (fmul q p) 50) (fmul (fmul q p) (round_double 0.18))"
    using newOrder_total [of c now newId q b] by (simp add: ord_def p_def)
  have e: "\<bar>totalAmount ord - (q * p + 50 + 0.18 * (q * p))\<bar>
           \<le> (q * p + 50 + 0.18 * (q * p)) / 2 ^ 50"
    using total_error [OF r] by (simp only: t fmul_def)
  have rest: "quantity ord = q \<and> pricePerLiter ord = p \<and> deliveryFee ord = 50
       \<and> taxes ord = fmul (fmul q p) (round_double 0.18)"
    by (simp add: newOrder_def Let_def ord_def p_def)
  from q1 rest t e example_total show ?thesis by simp
qed

theorem order_total_witness:
  "bodyQuantity orderBody1 = BodyNumber 10 \<and> validOrderBody 10 orderBody1
   \<and> pricePerLiter (newOrder customer1 50 ''order1'' 10 orderBody1) = 95.50
   \<and> totalAmount (newOrder customer1 50 ''order1'' 10 orderBody1) = round_double 1176.90"
proof -
  have v: "validOrderBody 10 orderBody1" using validOrderBody_examples by simp
  have n: "bodyQuantity orderBody1 = BodyNumber 10" by (simp add: orderBody1_def)
  note h = order_total [OF n v, of customer1 50 "''order1''"]
  have p: "bodyFuelType orderBody1 = Petrol" by (simp add: orderBody1_def)
  from h have a: "pricePerLiter (newOrder customer1 50 ''order1'' 10 orderBody1)
      = (if bodyFuelType orderBody1 = Petrol then 95.50 else 89.75)"
    by blast
  from h have b: "totalAmount (newOrder customer1 50 ''order1'' 10 orderBody1)
      = round_double 1176.90"
    by blast
  from a b n v p show ?thesis by simp
qed

section \<open>The driver's running average\<close>




section \<open>Rating once\<close>

text \<open>
  C8. When a customer or a driver has rated an order, the slot of their role holds the
  score, the comment and the time of that rating, and a second rating of the same order
  by the same caller, whatever its score, comment and time, is answered
  \<open>400 Order already rated\<close> and stores the order unchanged. No operation at all,
  by any caller, changes a slot that holds a score: a slot is filled at most once.
\<close>

theorem rating_one_shot:
  assumes "fst (rate c now r cmt users (Some ord)) = (Response 200 m, Some ord', ev)"
    and "callerType c \<noteq> Admin" and "validRating r2"
  shows "(callerType c = Customer \<longrightarrow>
            customerRating (rating ord') = \<lparr>score = Some r, comment = cmt, ratedAt = Some now\<rparr>)
       \<and> (callerType c = Driver \<longrightarrow>
            driverRating (rating ord') = \<lparr>score = Some r, comment = cmt, ratedAt = Some now\<rparr>)
       \<and> rate c now2 r2 cmt2 users2 (Some ord') =
            ((Response 400 ''Order already rated'', Some ord', []), users2)
       \<and> (truthyScore (customerRating (rating ord)) \<longrightarrow>
            customerRating (rating (step x ord)) = customerRating (rating ord))
       \<and> (truthyScore (driverRating (rating ord)) \<longrightarrow>
            driverRating (rating (step x ord)) = driverRating (rating ord))"
proof -
  have v: "validRating r"
    using assms(1) by (auto simp add: rate_def split: if_splits)
  then have nz: "r \<noteq> 0" by (auto simp add: validRating_def)
  have t: "callerType c = Customer \<or> callerType c = Driver"
    using assms(2) by (cases "callerType c") simp_all
  have a: "(callerType c = Customer \<longrightarrow>
            customerRating (rating ord') = \<lparr>score = Some r, comment = cmt, ratedAt = Some now\<rparr>)
       \<and> (callerType c = Driver \<longrightarrow>
            driverRating (rating ord') = \<lparr>score = Some r, comment = cmt, ratedAt = Some now\<rparr>)
       \<and> rate c now2 r2 cmt2 users2 (Some ord') =
            ((Response 400 ''Order already rated'', Some ord', []), users2)"
    using assms(1,3) nz t
    by (auto simp add: rate_def Let_def truthyScore_def split: if_splits)
  have b: "truthyScore (customerRating (rating ord)) \<longrightarrow>
            customerRating (rating (step x ord)) = customerRating (rating ord)"
    by (cases x)
      (auto simp add: accept_def updateStatus_def applyStatus_def rate_def
        createPaymentIntent_def confirmPayment_def webhook_def refund_def
        adminUpdateStatus_def saved_def Let_def
        split: option.splits status.splits stripeEvent.splits)
  have d: "truthyScore (driverRating (rating ord)) \<longrightarrow>
            driverRating (rating (step x ord)) = driverRating (rating ord)"
    by (cases x)
      (auto simp add: accept_def updateStatus_def applyStatus_def rate_def
        createPaymentIntent_def confirmPayment_def webhook_def refund_def
        adminUpdateStatus_def saved_def Let_def
        split: option.splits status.splits stripeEvent.splits)
  from a b d show ?thesis by blast
qed

theorem rating_one_shot_witness:
  "fst (rate customer1 1000 5 (Some ''great'') users0 (Some order2)) =
     (Response 200 ''Rating submitted successfully'',
      Some (order2\<lparr>rating := (rating order2)\<lparr>customerRating :=
        \<lparr>score = Some 5, comment = Some ''great'', ratedAt = Some 1000\<rparr>\<rparr>\<rparr>), [])
   \<and> callerType customer1 \<noteq> Admin \<and> validRating 1
   \<and> rate customer1 2000 1 None users0
        (Some (order2\<lparr>rating := (rating order2)\<lparr>customerRating :=
          \<lparr>score = Some 5, comment = Some ''great'', ratedAt = Some 1000\<rparr>\<rparr>\<rparr>)) =
       ((Response 400 ''Order already rated'',
         Some (order2\<lparr>rating := (rating order2)\<lparr>customerRating :=
           \<lparr>score = Some 5, comment = Some ''great'', ratedAt = Some 1000\<rparr>\<rparr>\<rparr>), []),
        users0)"
proof -
  have o: "order2\<lparr>orderId := ''order1''\<rparr> = order2" by (simp add: order2_def order1_def)
  note r = order2_rateable [of "''order1''", unfolded o]
  have v: "validRating 5" "validRating 1" by (simp_all add: validRating_def)
  have u: "users0 ''driver1'' = Some \<lparr>ratingAvg = 0, totalRatings = 0\<rparr>"
    by (simp add: users0_def)
  note h = rate_driver_average [where c = customer1 and ord = order2 and r = 5
      and d = "''driver1''" and users = users0 and now = 1000 and cmt = "Some ''great''",
      OF r [THEN conjunct1] r [THEN conjunct2, THEN conjunct1]
        r [THEN conjunct2, THEN conjunct2, THEN conjunct1]
        r [THEN conjunct2, THEN conjunct2, THEN conjunct2, THEN conjunct1] v(1)
        r [THEN conjunct2, THEN conjunct2, THEN conjunct2, THEN conjunct2] u]
  have first: "fst (rate customer1 1000 5 (Some ''great'') users0 (Some order2)) =
     (Response 200 ''Rating submitted successfully'',
      Some (order2\<lparr>rating := (rating order2)\<lparr>customerRating :=
        \<lparr>score = Some 5, comment = Some ''great'', ratedAt = Some 1000\<rparr>\<rparr>\<rparr>), [])"
    by (simp add: h)
  have a: "callerType customer1 \<noteq> Admin" by (simp add: customer1_def)
  from rating_one_shot [OF first a v(2), of 2000 None users0] first a v(2)
  show ?thesis by blast
qed

section \<open>Refund\<close>

text \<open>
  C9. A refund succeeds only for an order whose payment status is paid and whose status
  is not completed; for any other order it is rejected (400, or 403 for a customer who
  does not own the order), the order is stored unchanged and nothing is emitted, as
  after every refund that does not succeed. A refund that succeeds has called the
  gateway's refund for the order's payment intent and got an answer, and it stores the
  order with payment status refunded, status cancelled and a cancellation milestone with
  the time of the call, the reason and the caller's role.
\<close>

theorem refund_paid_not_completed:
  "(code (fst (refund c now rsn refundsCreate (Some ord))) = 200 \<longleftrightarrow>
      \<not> (callerType c = Customer \<and> customer ord \<noteq> userId c)
      \<and> paymentStatus ord = Paid \<and> status ord \<noteq> Completed
      \<and> truthyString (stripePaymentIntentId (paymentDetails ord))
      \<and> refundsCreate (the (stripePaymentIntentId (paymentDetails ord))) \<noteq> None)
   \<and> (\<not> (paymentStatus ord = Paid \<and> status ord \<noteq> Completed) \<longrightarrow>
        (code (fst (refund c now rsn refundsCreate (Some ord))) = 400
         \<or> code (fst (refund c now rsn refundsCreate (Some ord))) = 403)
        \<and> snd (refund c now rsn refundsCreate (Some ord)) = (Some ord, []))
   \<and> (code (fst (refund c now rsn refundsCreate (Some ord))) \<noteq> 200 \<longrightarrow>
        snd (refund c now rsn refundsCreate (Some ord)) = (Some ord, []))
   \<and> (code (fst (refund c now rsn refundsCreate (Some ord))) = 200 \<longrightarrow>
        snd (refund c now rsn refundsCreate (Some ord)) =
          (Some (ord\<lparr>paymentStatus := Refunded, status := Cancelled,
             tracking := (tracking ord)\<lparr>cancelled :=
               Some \<lparr>cancelledTimestamp = now,
                     reason = Some (orDefault rsn ''Refund processed''),
                     cancelledBy = callerType c\<rparr>\<rparr>\<rparr>),
           [(CustomerRoom (customer ord), RefundProcessed)]))"
  by (simp add: refund_def Let_def split: option.splits)

theorem refund_paid_not_completed_witness:
  "code (fst (refund customer1 400 None gatewayRefunds (Some order1))) = 200
   \<and> paymentStatus order1 = Paid \<and> status order1 \<noteq> Completed
   \<and> snd (refund customer1 400 None gatewayRefunds (Some order1)) =
       (Some (order1\<lparr>paymentStatus := Refunded, status := Cancelled,
          tracking := (tracking order1)\<lparr>cancelled :=
            Some \<lparr>cancelledTimestamp = 400, reason = Some ''Refund processed'',
                  cancelledBy = Customer\<rparr>\<rparr>\<rparr>),
        [(CustomerRoom ''customer1'', RefundProcessed)])"
proof -
  have ok: "code (fst (refund customer1 400 None gatewayRefunds (Some order1))) = 200"
    by (simp add: refund_def customer1_def order1_def gatewayRefunds_def truthyString_def)
  from refund_paid_not_completed [of customer1 400 None gatewayRefunds order1] ok
  show ?thesis
    by (simp add: customer1_def order1_def orDefault_def truthyString_def)
qed

section \<open>The status request of a driver on an order without a driver\<close>

text \<open>
  C10. When a caller with the driver role sends a valid status request for an order
  whose driver is unset, the permission check dereferences the missing driver: the answer
  is the generic \<open>500 Server error updating order status\<close>, not a 403 or a conflict,
  the order is stored unchanged and nothing is emitted.
\<close>

theorem status_update_unassigned_driver:
  assumes "callerType c = Driver" and "driver ord = None"
    and "newStatus b \<in> set statusTargets"
  shows "updateStatus c now b (Some ord) =
           (Response 500 ''Server error updating order status'', Some ord, [])"
  using assms by (simp add: updateStatus_def)

theorem status_update_unassigned_driver_witness:
  "callerType driver1 = Driver \<and> driver order1 = None
   \<and> newStatus (statusRequest DriverEnRoute) \<in> set statusTargets
   \<and> updateStatus driver1 200 (statusRequest DriverEnRoute) (Some order1) =
       (Response 500 ''Server error updating order status'', Some order1, [])"
proof -
  have a: "callerType driver1 = Driver" by (simp add: driver1_def)
  have b: "driver order1 = None" by (simp add: order1_def)
  have c: "newStatus (statusRequest DriverEnRoute) \<in> set statusTargets"
    by (simp add: statusRequest_def statusTargets_def)
  from status_update_unassigned_driver [OF a b c] a b c show ?thesis by simp
qed

end
